theory Spec2Isabelle
  imports Complex_Main "HOL-Library.Log_Nat"
begin

section \<open>Data model\<close>

text \<open>
  The repository holds two build scripts with the same structure (both in
  \<^verbatim>\<open>src/unnamed/part_002\<close>): the verbose one (lines 1--210, here \<open>main1\<close>) and the
  terse one (lines 211--397, here \<open>main2\<close>). Both declare

  \<^verbatim>\<open>type TsBunConfig = { entry?: string | string[]; outdir?: string;
                        minify?: boolean; target?: "bun" | "browser" | "node" }\<close>

  An optional field is an \<open>option\<close>; \<open>None\<close> is JavaScript's \<open>undefined\<close>.
  Strings are byte strings (the UTF-8 text the process writes).
\<close>

datatype target = Bun | Browser | Node

datatype entry_field = EntryString string | EntryList "string list"

record TsBunConfig =
  entry :: "entry_field option"
  outdir :: "string option"
  minify :: "bool option"
  target :: "target option"

text \<open>
  The fields the scripts import from \<^verbatim>\<open>~/package.json\<close>
  (\<^verbatim>\<open>import { author, name, version } from "~/package.json"\<close>). The file is not part
  of the sources, so its contents are a parameter of everything that prints them.
\<close>

record package_json =
  name :: string
  version :: string
  author_name :: string
  author_email :: string
  author_url :: string

text \<open>
  The result of \<^verbatim>\<open>parseArgs\<close> for the option schema of the scripts: three boolean
  flags (\<^verbatim>\<open>values.help\<close>, \<^verbatim>\<open>values.version\<close>, \<^verbatim>\<open>values.watch\<close>; a flag that was
  not given is \<open>undefined\<close>, which is falsy, here \<open>False\<close>) and the positionals.
\<close>

record flag_values =
  help_flag :: bool
  version_flag :: bool
  watch_flag :: bool

record parsed_args =
  positionals :: "string list"
  flags :: flag_values

text \<open>The bundler's request and result (\<^verbatim>\<open>Bun.build\<close>).\<close>

record build_request =
  entrypoints :: "string list"
  build_outdir :: string
  build_target :: target
  build_minify :: bool

datatype build_message = BuildMessage string

record build_artifact =
  path :: string
  size_bytes :: nat

record build_output =
  success :: bool
  logs :: "build_message list"
  outputs :: "build_artifact list"

text \<open>
  A value thrown by the dynamically imported configuration module. The scripts read
  \<^verbatim>\<open>err.message\<close> of whatever was thrown (\<^verbatim>\<open>catch (err: any)\<close>):
  \<^item> \<open>Thrown m\<close>: a value whose \<^verbatim>\<open>message\<close> property prints as \<open>m\<close> (an \<^verbatim>\<open>Error\<close>, or any
    other object or primitive, for which \<open>m\<close> is \<^verbatim>\<open>undefined\<close>);
  \<^item> \<open>ThrownNullish t\<close>: \<^verbatim>\<open>null\<close> or \<^verbatim>\<open>undefined\<close>; reading \<^verbatim>\<open>.message\<close> of it raises a
    \<^verbatim>\<open>TypeError\<close>, whose message (the engine's wording) is \<open>t\<close>.
\<close>

datatype thrown = Thrown string | ThrownNullish string

text \<open>
  The imported module namespace: \<^verbatim>\<open>config.default || config\<close> takes the default export
  when it is truthy, else the namespace object itself, whose named exports are then read
  as the configuration's fields.
\<close>

record js_module =
  default_export :: "TsBunConfig option"
  named_exports :: TsBunConfig

text \<open>
  Everything observable a run does, in order: console output, the probes of the file
  system, the dynamic import, the deletion of the output directory, the call of the
  bundler and the subprocess.
\<close>

datatype event =
    ConsoleLog string
  | ConsoleWarn string
  | ConsoleError string
  | ConsoleErrorMessage build_message
  | FileExists string
  | Import string
  | RmSync string
  | BunBuild build_request
  | SpawnSync "string list"

text \<open>
  The environment of one invocation: what each collaborator answers.
  \<^item> \<open>parseArgs\<close>: the result of node's \<^verbatim>\<open>parseArgs\<close> on \<^verbatim>\<open>process.argv.slice(2)\<close>;
    \<open>Inl m\<close> when it throws an error with message \<open>m\<close>;
  \<^item> \<open>configPath\<close>: \<^verbatim>\<open>join(process.cwd(), "tsbun.config.ts")\<close>;
  \<^item> \<open>fs_start\<close>: which paths exist when the run starts; \<open>fs_built\<close>: which exist after
    the output directory was cleaned and the bundler has run;
  \<^item> \<open>import_module\<close>: the dynamic \<^verbatim>\<open>import(url)\<close>, \<open>Inl\<close> when it throws;
  \<^item> \<open>bunBuild\<close>: the bundler, \<open>Inl m\<close> when its promise rejects with an error of
    message \<open>m\<close>;
  \<^item> \<open>relative_cwd\<close>: \<^verbatim>\<open>relative(process.cwd(), p)\<close>;
  \<^item> \<open>duration\<close>: \<^verbatim>\<open>Math.round(performance.now() - startTime)\<close>;
  \<^item> \<open>log_index\<close>: \<^verbatim>\<open>Math.floor(Math.log(bytes) / Math.log(1024))\<close> as the engine's
    double-precision arithmetic computes it, for a byte count of at least 1 (see
    \<open>formatSize\<close>);
  \<^item> \<open>spawnSync\<close>: the exit status of the subprocess run with the given argument
    vector (a status that is not a number counts as non-zero).

  Deleting the output directory and starting the subprocess are taken to succeed.
\<close>

record world =
  parseArgs :: "string + parsed_args"
  configPath :: string
  fs_start :: "string \<Rightarrow> bool"
  fs_built :: "string \<Rightarrow> bool"
  import_module :: "string \<Rightarrow> thrown + js_module"
  bunBuild :: "build_request \<Rightarrow> string + build_output"
  relative_cwd :: "string \<Rightarrow> string"
  duration :: nat
  log_index :: "nat \<Rightarrow> nat"
  spawnSync :: "string list \<Rightarrow> int"

text \<open>Every path of both scripts ends in \<^verbatim>\<open>process.exit(code)\<close>.\<close>

record outcome =
  trace :: "event list"
  exit_code :: nat

section \<open>Strings\<close>

definition nl :: string where
  "nl = [CHR 0x0A]"

definition dquote :: string where
  "dquote = [CHR 0x22]"

text \<open>The two code points of the emoji in the success line of \<open>main1\<close>, as UTF-8.\<close>

definition high_voltage :: string where
  "high_voltage = [CHR 0xE2, CHR 0x9A, CHR 0xA1, CHR 0xEF, CHR 0xB8, CHR 0x8F]"

definition digit :: "nat \<Rightarrow> char" where
  "digit d = ''0123456789'' ! d"

text \<open>The decimal text of a natural number (a template literal's \<^verbatim>\<open>${n}\<close>).\<close>

fun number_toString :: "nat \<Rightarrow> string" where
  "number_toString n =
     (if n < 10 then [digit n] else number_toString (n div 10) @ [digit (n mod 10)])"

declare number_toString.simps [simp del]

text \<open>
  \<^verbatim>\<open>(num / den).toFixed(2)\<close> for a quotient below \<open>10^21\<close>: the integer \<open>n\<close> with
  \<open>n / 100\<close> closest to the quotient, the larger one on a tie, printed with two
  decimals.
\<close>

definition toFixed2 :: "nat \<Rightarrow> nat \<Rightarrow> string" where
  "toFixed2 num den =
     (let n = (200 * num + den) div (2 * den)
      in number_toString (n div 100) @ ''.'' @ [digit (n mod 100 div 10), digit (n mod 10)])"

section \<open>Size formatter\<close>

text \<open>
  \<^verbatim>\<open>
  const formatSize = (bytes: number) => {
    if (bytes === 0) return "0 B"
    const k = 1024
    const sizes = ["B", "KB", "MB", "GB", "TB"]
    const i = Math.floor(Math.log(bytes) / Math.log(k))
    return `${(bytes / Math.pow(k, i)).toFixed(2)} ${sizes[i]}`
  }
  \<close>
  A byte count is a natural number (one a double holds exactly, so that dividing it by
  a power of two is exact). The index \<open>i\<close> is the floor of a quotient of two
  double-precision logarithms. How that quotient is rounded is not expressible over
  HOL's numbers, so the index is a parameter: \<open>floor_log bytes\<close> is the value the
  engine computes for \<open>bytes\<close>. For a byte count of at least 1 both logarithms are
  non-negative, so the index is a natural number. An index outside the array reads
  \<^verbatim>\<open>undefined\<close>, which the template literal prints as \<^verbatim>\<open>undefined\<close>.
\<close>

definition sizes :: "string list" where
  "sizes = [''B'', ''KB'', ''MB'', ''GB'', ''TB'']"

definition formatSize :: "(nat \<Rightarrow> nat) \<Rightarrow> nat \<Rightarrow> string" where
  "formatSize floor_log bytes =
     (if bytes = 0 then ''0 B''
      else
        let k = 1024;
            i = floor_log bytes
        in toFixed2 bytes (k ^ i) @ '' '' @
           (if i < length sizes then sizes ! i else ''undefined''))"

text \<open>
  The index over the reals, \<open>\<lfloor>ln bytes / ln 1024\<rfloor>\<close> (lemma \<open>exact_index_floor\<close>). The
  doubles agree with it wherever the quotient is not within rounding distance of an
  integer; just below a power of 1024 the quotient of the doubles can be the integer
  itself (at \<open>2^50 - 1\<close> it is \<open>5.0\<close>, so the engine's index there is 5, not 4).
\<close>

definition exact_index :: "nat \<Rightarrow> nat" where
  "exact_index bytes = floorlog 1024 bytes - 1"

section \<open>Help text and argument parser\<close>

text \<open>
  \<^verbatim>\<open>
  const helpMessage = `Version:
    ${name}@${version}

  Usage:
    $ ${name} [entry] [options]

  Options:
    -v, --version  Display version
    -h, --help     Display help message
    --watch        Watch mode

  Author:
    ${author.name} <${author.email}> (${author.url})`
  \<close>
\<close>

definition helpMessage :: "package_json \<Rightarrow> string" where
  "helpMessage pkg =
     ''Version:'' @ nl @
     ''  '' @ name pkg @ ''@'' @ version pkg @ nl @
     nl @
     ''Usage:'' @ nl @
     ''  $ '' @ name pkg @ '' [entry] [options]'' @ nl @
     nl @
     ''Options:'' @ nl @
     ''  -v, --version  Display version'' @ nl @
     ''  -h, --help     Display help message'' @ nl @
     ''  --watch        Watch mode'' @ nl @
     nl @
     ''Author:'' @ nl @
     ''  '' @ author_name pkg @ '' <'' @ author_email pkg @ ''> ('' @ author_url pkg @ '')''"

text \<open>
  \<^verbatim>\<open>
  const parse: typeof parseArgs = (config) => {
    try { return parseArgs(config) }
    catch (err: any) { throw new Error(`Error parsing arguments: ${err.message}`) }
  }
  \<close>
\<close>

definition parse :: "string + parsed_args \<Rightarrow> string + parsed_args" where
  "parse r = (case r of Inl m \<Rightarrow> Inl (''Error parsing arguments: '' @ m) | Inr p \<Rightarrow> Inr p)"

section \<open>Config loader\<close>

text \<open>
  \<^verbatim>\<open>
  const loadConfig = async () => {
    const configPath = join(process.cwd(), "tsbun.config.ts")
    if (await Bun.file(configPath).exists()) {
      try {
        const configUrl = `file://${configPath}`
        const config = await import(configUrl)
        return { config: config.default || config, path: configPath }
      } catch (err: any) {
        console.warn(`Warning: Failed to load tsbun.config.ts: ${err.message}`)
        return { config: null, path: null }
      }
    }
    return { config: null, path: null }
  }
  \<close>
  (\<^verbatim>\<open>src/unnamed/part_000\<close> lines 19--35 and \<^verbatim>\<open>part_002\<close> lines 37--53). The result is
  the events of the call and either the returned pair of config and path, or \<open>Inl m\<close>
  when the call throws an error with message \<open>m\<close>. The argument of \<^verbatim>\<open>console.warn\<close> is
  evaluated inside the \<^verbatim>\<open>catch\<close> block: when the thrown value is \<^verbatim>\<open>null\<close> or
  \<^verbatim>\<open>undefined\<close>, reading \<^verbatim>\<open>err.message\<close> raises a \<^verbatim>\<open>TypeError\<close> there, before anything
  is printed, and that error leaves \<open>loadConfig\<close>.
\<close>

definition module_config :: "js_module \<Rightarrow> TsBunConfig" where
  "module_config m = (case default_export m of Some c \<Rightarrow> c | None \<Rightarrow> named_exports m)"

definition loadConfig1 :: "world \<Rightarrow> event list \<times> (string + TsBunConfig option \<times> string option)" where
  "loadConfig1 w =
     (let cp = configPath w in
      if fs_start w cp then
        (let configUrl = ''file://'' @ cp in
         case import_module w configUrl of
           Inr m \<Rightarrow> ([FileExists cp, Import configUrl], Inr (Some (module_config m), Some cp))
         | Inl (Thrown msg) \<Rightarrow>
             ([FileExists cp, Import configUrl,
               ConsoleWarn (''Warning: Failed to load tsbun.config.ts: '' @ msg)],
              Inr (None, None))
         | Inl (ThrownNullish type_error) \<Rightarrow>
             ([FileExists cp, Import configUrl], Inl type_error))
      else ([FileExists cp], Inr (None, None)))"

text \<open>
  The terse script's loader (\<^verbatim>\<open>part_002\<close> lines 240--253) returns the config alone
  (\<^verbatim>\<open>return config.default || config\<close>, \<^verbatim>\<open>return null\<close>) and probes with
  \<^verbatim>\<open>existsSync\<close>.
\<close>

definition loadConfig2 :: "world \<Rightarrow> event list \<times> (string + TsBunConfig option)" where
  "loadConfig2 w =
     (let cp = configPath w in
      if fs_start w cp then
        (let configUrl = ''file://'' @ cp in
         case import_module w configUrl of
           Inr m \<Rightarrow> ([FileExists cp, Import configUrl], Inr (Some (module_config m)))
         | Inl (Thrown msg) \<Rightarrow>
             ([FileExists cp, Import configUrl,
               ConsoleWarn (''Warning: Failed to load tsbun.config.ts: '' @ msg)],
              Inr None)
         | Inl (ThrownNullish type_error) \<Rightarrow>
             ([FileExists cp, Import configUrl], Inl type_error))
      else ([FileExists cp], Inr None))"

section \<open>Entry resolver\<close>

text \<open>
  \<^verbatim>\<open>
  let entry = positionals[0]
  if (!entry) {
    const defaultEntries = ["index.ts", "src/index.ts"]
    for (const e of defaultEntries) {
      if (await Bun.file(e).exists()) { entry = e; break }
    }
  }
  if (!entry && config?.entry) {
    if (typeof config.entry === "string") { entry = config.entry }
    else if (Array.isArray(config.entry) && config.entry.length > 0) {
      entry = config.entry[0]
    }
  }
  \<close>
  (\<^verbatim>\<open>part_002\<close> lines 92--110; lines 294--312 are the same with \<^verbatim>\<open>existsSync(e)\<close>).
  The variable \<^verbatim>\<open>entry\<close> is a \<open>string option\<close>; \<^verbatim>\<open>!entry\<close> holds when it is
  \<^verbatim>\<open>undefined\<close> or the empty string. \<^verbatim>\<open>config?.entry\<close> is truthy for a non-empty
  string and for every array.
\<close>

definition falsy :: "string option \<Rightarrow> bool" where
  "falsy v = (case v of None \<Rightarrow> True | Some s \<Rightarrow> s = [])"

definition defaultEntries :: "string list" where
  "defaultEntries = [''index.ts'', ''src/index.ts'']"

fun probeDefaults :: "(string \<Rightarrow> bool) \<Rightarrow> string list \<Rightarrow> event list \<times> string option" where
  "probeDefaults ex [] = ([], None)"
| "probeDefaults ex (e # es) =
     (if ex e then ([FileExists e], Some e)
      else (case probeDefaults ex es of (evs, r) \<Rightarrow> (FileExists e # evs, r)))"

text \<open>\<^verbatim>\<open>positionals[0]\<close>: \<^verbatim>\<open>undefined\<close> when there is no positional.\<close>

definition first_positional :: "string list \<Rightarrow> string option" where
  "first_positional ps = (case ps of [] \<Rightarrow> None | p # _ \<Rightarrow> Some p)"

definition resolveEntry ::
  "(string \<Rightarrow> bool) \<Rightarrow> string list \<Rightarrow> TsBunConfig option \<Rightarrow> event list \<times> string option" where
  "resolveEntry ex ps config =
     (let entry0 = first_positional ps;
          (evs, entry1) =
            (if falsy entry0 then
               (case probeDefaults ex defaultEntries of
                  (evs, Some e) \<Rightarrow> (evs, Some e)
                | (evs, None) \<Rightarrow> (evs, entry0))
             else ([], entry0));
          entry2 =
            (if falsy entry1 then
               (case config of
                  None \<Rightarrow> entry1
                | Some c \<Rightarrow>
                    (case entry c of
                       None \<Rightarrow> entry1
                     | Some (EntryString s) \<Rightarrow> (if s = [] then entry1 else Some s)
                     | Some (EntryList []) \<Rightarrow> entry1
                     | Some (EntryList (x # _)) \<Rightarrow> Some x))
             else entry1)
      in (evs, entry2))"

definition entryNotFound :: string where
  "entryNotFound =
     ''Could not find entry point (index.ts or src/index.ts). Please specify one.''"

section \<open>Effective options and the arguments of the type generator\<close>

text \<open>
  \<^verbatim>\<open>
  const outdir = config?.outdir || "dist"
  const minify = config?.minify !== undefined ? config.minify : true
  const target = config?.target || "bun"
  \<close>
  (\<^verbatim>\<open>part_002\<close> lines 119--121 and 321--323). \<^verbatim>\<open>||\<close> takes the right operand when
  the left one is falsy: \<^verbatim>\<open>undefined\<close> or the empty string. The three values of
  \<open>target\<close> are non-empty strings.
\<close>

definition effective_outdir :: "TsBunConfig option \<Rightarrow> string" where
  "effective_outdir config =
     (case config of
        None \<Rightarrow> ''dist''
      | Some c \<Rightarrow> (case outdir c of None \<Rightarrow> ''dist'' | Some d \<Rightarrow> if d = [] then ''dist'' else d))"

definition effective_minify :: "TsBunConfig option \<Rightarrow> bool" where
  "effective_minify config =
     (case config of
        None \<Rightarrow> True
      | Some c \<Rightarrow> (case minify c of None \<Rightarrow> True | Some b \<Rightarrow> b))"

definition effective_target :: "TsBunConfig option \<Rightarrow> target" where
  "effective_target config =
     (case config of
        None \<Rightarrow> Bun
      | Some c \<Rightarrow> (case target c of None \<Rightarrow> Bun | Some t \<Rightarrow> t))"

definition target_string :: "target \<Rightarrow> string" where
  "target_string t = (case t of Bun \<Rightarrow> ''bun'' | Browser \<Rightarrow> ''browser'' | Node \<Rightarrow> ''node'')"

text \<open>
  \<^verbatim>\<open>
  const tscArgs = ["--declaration", "--emitDeclarationOnly", "--noEmit", "false",
                   "--outDir", outdir]
  if (hasTsConfig) { tscArgs.push("--project", "tsconfig.json") }
  else { tscArgs.push("--esModuleInterop", "--skipLibCheck", "--moduleResolution",
                      "bundler", "--target", "esnext", entry) }
  \<close>
  (\<^verbatim>\<open>part_002\<close> lines 167--189 and 354--377).
\<close>

definition tscArgs :: "string \<Rightarrow> bool \<Rightarrow> string \<Rightarrow> string list" where
  "tscArgs od hasTsConfig e =
     [''--declaration'', ''--emitDeclarationOnly'', ''--noEmit'', ''false'', ''--outDir'', od] @
     (if hasTsConfig then [''--project'', ''tsconfig.json'']
      else [''--esModuleInterop'', ''--skipLibCheck'', ''--moduleResolution'', ''bundler'',
            ''--target'', ''esnext'', e])"

section \<open>Build orchestration\<close>

text \<open>
  The top-level handler of both scripts:
  \<^verbatim>\<open>
  } catch (err: any) {
    console.error(helpMessage)
    console.error(`\n${err.message}\n`)
    process.exit(1)
  }
  \<close>
  \<open>evs\<close> are the events before the error, \<open>msg\<close> the error's message.
\<close>

definition uncaught :: "package_json \<Rightarrow> event list \<Rightarrow> string \<Rightarrow> outcome" where
  "uncaught pkg evs msg =
     \<lparr>trace = evs @ [ConsoleError (helpMessage pkg), ConsoleError (nl @ msg @ nl)],
      exit_code = 1\<rparr>"

text \<open>
  The verbose script announces the build and cleans the output directory
  (\<^verbatim>\<open>part_002\<close> lines 123--139):
  \<^verbatim>\<open>
  console.log(`CLI Building entry: {"${entry}":"${entry}"}`)
  const hasTsConfig = await Bun.file("tsconfig.json").exists()
  if (hasTsConfig) { console.log(`CLI Using tsconfig: tsconfig.json`) }
  console.log(`CLI ${name} v${version}`)
  if (configPath) { console.log(`CLI Using tsbun config: ${configPath}`) }
  console.log(`CLI Target: ${target}`)
  console.log(`CLI Cleaning output folder`)
  rmSync(outdir, { recursive: true, force: true })
  console.log(`ESM Build start`)
  \<close>
\<close>

definition start1 ::
  "package_json \<Rightarrow> bool \<Rightarrow> string option \<Rightarrow> target \<Rightarrow> string \<Rightarrow> string \<Rightarrow> event list" where
  "start1 pkg hasTsConfig cpath tg od e =
     [ConsoleLog (''CLI Building entry: {'' @ dquote @ e @ dquote @ '':'' @
                  dquote @ e @ dquote @ ''}''),
      FileExists ''tsconfig.json''] @
     (if hasTsConfig then [ConsoleLog ''CLI Using tsconfig: tsconfig.json''] else []) @
     [ConsoleLog (''CLI '' @ name pkg @ '' v'' @ version pkg)] @
     (case cpath of
        None \<Rightarrow> []
      | Some p \<Rightarrow> if p = [] then [] else [ConsoleLog (''CLI Using tsbun config: '' @ p)]) @
     [ConsoleLog (''CLI Target: '' @ target_string tg),
      ConsoleLog ''CLI Cleaning output folder'',
      RmSync od,
      ConsoleLog ''ESM Build start'']"

text \<open>
  After a successful bundle the verbose script lists the artifacts
  (\<^verbatim>\<open>part_002\<close> lines 157--165):
  \<^verbatim>\<open>
  for (const output of result.outputs) {
    console.log(`ESM ${relative(process.cwd(), output.path)} ${formatSize(output.size)}`)
  }
  const duration = Math.round(performance.now() - startTime)
  console.log(`ESM <emoji> Build success in ${duration}ms`)
  \<close>
\<close>

definition report1 :: "world \<Rightarrow> build_output \<Rightarrow> event list" where
  "report1 w result =
     map (\<lambda>output. ConsoleLog (''ESM '' @ relative_cwd w (path output) @ '' '' @
                               formatSize (log_index w) (size_bytes output)))
         (outputs result) @
     [ConsoleLog (''ESM '' @ high_voltage @ '' Build success in '' @
                  number_toString (duration w) @ ''ms'')]"

text \<open>
  The type generation of the verbose script (\<^verbatim>\<open>part_002\<close> lines 167--202), after
  \<open>tscArgs\<close> is built:
  \<^verbatim>\<open>
  const tsc = Bun.spawnSync(["bun", "x", "tsc", ...tscArgs], {...})
  if (tsc.exitCode !== 0) { console.error("Type generation failed!"); process.exit(1) }
  process.exit(0)
  \<close>
  The result is the events and the exit code.
\<close>

definition types1 :: "world \<Rightarrow> string \<Rightarrow> bool \<Rightarrow> string \<Rightarrow> event list \<times> nat" where
  "types1 w od hasTsConfig e =
     (let argv = [''bun'', ''x'', ''tsc''] @ tscArgs od hasTsConfig e
      in if spawnSync w argv \<noteq> 0 then
           ([SpawnSync argv, ConsoleError ''Type generation failed!''], 1)
         else ([SpawnSync argv], 0))"

text \<open>
  The verbose script from the entry resolution on (\<^verbatim>\<open>part_002\<close> lines 91--202):
  \<open>pre\<close> are the events so far, \<open>ps\<close> the positionals, \<open>config\<close> and \<open>cpath\<close> what
  \<open>loadConfig\<close> returned. The test \<^verbatim>\<open>if (!entry)\<close> of line 112 sends \<^verbatim>\<open>undefined\<close> and
  the empty string to the failure branch.
  \<^verbatim>\<open>
  if (!entry) {
    console.error("Could not find entry point (index.ts or src/index.ts). Please specify one.")
    process.exit(1)
  }
  const outdir = ...; const minify = ...; const target = ...
  ... (start1)
  const result = await bunBuild({ entrypoints: [entry], outdir, target, minify })
  if (!result.success) {
    console.error("Build failed!")
    for (const message of result.logs) { console.error(message) }
    process.exit(1)
  }
  ... (report1, types1)
  \<close>
\<close>

definition build1 ::
  "package_json \<Rightarrow> world \<Rightarrow> event list \<Rightarrow> string list \<Rightarrow> TsBunConfig option \<Rightarrow>
   string option \<Rightarrow> outcome" where
  "build1 pkg w pre ps config cpath =
     (case resolveEntry (fs_start w) ps config of (probes, resolved) \<Rightarrow>
      (case (if falsy resolved then None else resolved) of
         None \<Rightarrow> \<lparr>trace = pre @ probes @ [ConsoleError entryNotFound], exit_code = 1\<rparr>
       | Some e \<Rightarrow>
          (let od = effective_outdir config;
               mn = effective_minify config;
               tg = effective_target config;
               hasTsConfig = fs_start w ''tsconfig.json'';
               req = \<lparr>entrypoints = [e], build_outdir = od, build_target = tg,
                      build_minify = mn\<rparr>;
               t1 = pre @ probes @ start1 pkg hasTsConfig cpath tg od e @ [BunBuild req]
           in case bunBuild w req of
                Inl msg \<Rightarrow> uncaught pkg t1 msg
              | Inr result \<Rightarrow>
                  if \<not> success result then
                    \<lparr>trace = t1 @ [ConsoleError ''Build failed!''] @
                             map ConsoleErrorMessage (logs result),
                     exit_code = 1\<rparr>
                  else
                    (case types1 w od hasTsConfig e of (evs, code) \<Rightarrow>
                       \<lparr>trace = t1 @ report1 w result @ evs, exit_code = code\<rparr>))))"

text \<open>
  The verbose script (\<^verbatim>\<open>part_002\<close> lines 63--208):
  \<^verbatim>\<open>
  const { positionals, values } = parse({ ... })
  if (values.version) { console.log(`${name}@${version}`); process.exit(0) }
  if (values.help) { console.log(helpMessage); process.exit(0) }
  const { config, path: configPath } = await loadConfig()
  \<close>
  followed by \<open>build1\<close>; every error thrown on the way reaches \<open>uncaught\<close>.
\<close>

definition main1 :: "package_json \<Rightarrow> world \<Rightarrow> outcome" where
  "main1 pkg w =
     (case parse (parseArgs w) of
        Inl msg \<Rightarrow> uncaught pkg [] msg
      | Inr parsed \<Rightarrow>
          if version_flag (flags parsed) then
            \<lparr>trace = [ConsoleLog (name pkg @ ''@'' @ version pkg)], exit_code = 0\<rparr>
          else if help_flag (flags parsed) then
            \<lparr>trace = [ConsoleLog (helpMessage pkg)], exit_code = 0\<rparr>
          else
            (case loadConfig1 w of
               (evs, Inl msg) \<Rightarrow> uncaught pkg evs msg
             | (evs, Inr (config, cpath)) \<Rightarrow> build1 pkg w evs (positionals parsed) config cpath))"

text \<open>
  The terse script announces the build and cleans the output directory
  (\<^verbatim>\<open>part_002\<close> lines 325--330):
  \<^verbatim>\<open>
  console.log(`Building ${entry}...`)
  if (existsSync(outdir)) { rmSync(outdir, { recursive: true }) }
  \<close>
\<close>

definition start2 :: "world \<Rightarrow> string \<Rightarrow> string \<Rightarrow> event list" where
  "start2 w od e =
     [ConsoleLog (''Building '' @ e @ ''...''), FileExists od] @
     (if fs_start w od then [RmSync od] else [])"

text \<open>
  The type generation of the terse script (\<^verbatim>\<open>part_002\<close> lines 348--389); here
  \<^verbatim>\<open>tsconfig.json\<close> is probed after the bundler has run:
  \<^verbatim>\<open>
  console.log("JS Bundle created!")
  console.log("Generating types...")
  const hasTsConfig = existsSync("tsconfig.json")
  const tscArgs = [...]
  if (hasTsConfig) { console.log("Using tsconfig.json..."); tscArgs.push(...) }
  else { tscArgs.push(...) }
  const tsc = spawnSync("bun", ["x", "tsc", ...tscArgs], { stdio: "inherit" })
  if (tsc.status !== 0) { console.error("Type generation failed!"); process.exit(1) }
  console.log("Build complete!")
  process.exit(0)
  \<close>
\<close>

definition types2 :: "world \<Rightarrow> string \<Rightarrow> string \<Rightarrow> event list \<times> nat" where
  "types2 w od e =
     (let hasTsConfig = fs_built w ''tsconfig.json'';
          argv = [''bun'', ''x'', ''tsc''] @ tscArgs od hasTsConfig e;
          t = [ConsoleLog ''JS Bundle created!'', ConsoleLog ''Generating types...'',
               FileExists ''tsconfig.json''] @
              (if hasTsConfig then [ConsoleLog ''Using tsconfig.json...''] else [])
      in if spawnSync w argv \<noteq> 0 then
           (t @ [SpawnSync argv, ConsoleError ''Type generation failed!''], 1)
         else (t @ [SpawnSync argv, ConsoleLog ''Build complete!''], 0))"

text \<open>
  The terse script from the entry resolution on (\<^verbatim>\<open>part_002\<close> lines 293--389), with
  the same failure branches as \<open>build1\<close> (lines 314--319 and 340--346).
\<close>

definition build2 ::
  "package_json \<Rightarrow> world \<Rightarrow> event list \<Rightarrow> string list \<Rightarrow> TsBunConfig option \<Rightarrow> outcome" where
  "build2 pkg w pre ps config =
     (case resolveEntry (fs_start w) ps config of (probes, resolved) \<Rightarrow>
      (case (if falsy resolved then None else resolved) of
         None \<Rightarrow> \<lparr>trace = pre @ probes @ [ConsoleError entryNotFound], exit_code = 1\<rparr>
       | Some e \<Rightarrow>
          (let od = effective_outdir config;
               mn = effective_minify config;
               tg = effective_target config;
               req = \<lparr>entrypoints = [e], build_outdir = od, build_target = tg,
                      build_minify = mn\<rparr>;
               t1 = pre @ probes @ start2 w od e @ [BunBuild req]
           in case bunBuild w req of
                Inl msg \<Rightarrow> uncaught pkg t1 msg
              | Inr result \<Rightarrow>
                  if \<not> success result then
                    \<lparr>trace = t1 @ [ConsoleError ''Build failed!''] @
                             map ConsoleErrorMessage (logs result),
                     exit_code = 1\<rparr>
                  else
                    (case types2 w od e of (evs, code) \<Rightarrow>
                       \<lparr>trace = t1 @ evs, exit_code = code\<rparr>))))"

text \<open>
  The terse script (\<^verbatim>\<open>part_002\<close> lines 263--395); after loading,
  \<^verbatim>\<open>if (config) { console.log("Using tsbun.config.ts...") }\<close>.
\<close>

definition main2 :: "package_json \<Rightarrow> world \<Rightarrow> outcome" where
  "main2 pkg w =
     (case parse (parseArgs w) of
        Inl msg \<Rightarrow> uncaught pkg [] msg
      | Inr parsed \<Rightarrow>
          if version_flag (flags parsed) then
            \<lparr>trace = [ConsoleLog (name pkg @ ''@'' @ version pkg)], exit_code = 0\<rparr>
          else if help_flag (flags parsed) then
            \<lparr>trace = [ConsoleLog (helpMessage pkg)], exit_code = 0\<rparr>
          else
            (case loadConfig2 w of
               (evs, Inl msg) \<Rightarrow> uncaught pkg evs msg
             | (evs, Inr config) \<Rightarrow>
                 build2 pkg w
                   (evs @ (case config of None \<Rightarrow> []
                           | Some _ \<Rightarrow> [ConsoleLog ''Using tsbun.config.ts...'']))
                   (positionals parsed) config))"

section \<open>Classifying events\<close>

text \<open>
  An event is quiet when it is neither error output nor a call of the bundler or of the
  subprocess: everything a run does before it bundles, fails or generates types.
\<close>

fun quiet :: "event \<Rightarrow> bool" where
  "quiet (ConsoleError _) = False"
| "quiet (ConsoleErrorMessage _) = False"
| "quiet (BunBuild _) = False"
| "quiet (SpawnSync _) = False"
| "quiet _ = True"

section \<open>Sample invocations\<close>

text \<open>Concrete inputs on which the theorems below are instantiated.\<close>

definition sample_pkg :: package_json where
  "sample_pkg =
     \<lparr>name = ''tsbun'', version = ''1.0.0'', author_name = ''Jo Doe'',
      author_email = ''jo@example.com'', author_url = ''https://example.com''\<rparr>"

definition no_files :: "string \<Rightarrow> bool" where
  "no_files p = False"

definition only_index :: "string \<Rightarrow> bool" where
  "only_index p = (p = ''index.ts'')"

definition only_src_index :: "string \<Rightarrow> bool" where
  "only_src_index p = (p = ''src/index.ts'')"

definition index_and_tsconfig :: "string \<Rightarrow> bool" where
  "index_and_tsconfig p = (p = ''index.ts'' \<or> p = ''tsconfig.json'')"

definition only_config :: "string \<Rightarrow> bool" where
  "only_config p = (p = ''/proj/tsbun.config.ts'')"

definition index_and_config :: "string \<Rightarrow> bool" where
  "index_and_config p = (p = ''index.ts'' \<or> p = ''/proj/tsbun.config.ts'')"

definition no_flags :: flag_values where
  "no_flags = \<lparr>help_flag = False, version_flag = False, watch_flag = False\<rparr>"

definition import_fails :: "string \<Rightarrow> thrown + js_module" where
  "import_fails u = Inl (Thrown ''Unexpected token'')"

definition import_throws_null :: "string \<Rightarrow> thrown + js_module" where
  "import_throws_null u = Inl (ThrownNullish ''null is not an object'')"

definition empty_config :: TsBunConfig where
  "empty_config = \<lparr>entry = None, outdir = None, minify = None, target = None\<rparr>"

definition sample_config :: TsBunConfig where
  "sample_config =
     \<lparr>entry = Some (EntryList [''a.ts'', ''b.ts'']), outdir = Some ''build'',
      minify = Some False, target = Some Node\<rparr>"

text \<open>A module whose default export is the given configuration.\<close>

definition exports :: "TsBunConfig \<Rightarrow> string \<Rightarrow> thrown + js_module" where
  "exports c u = Inr \<lparr>default_export = Some c, named_exports = empty_config\<rparr>"

definition bundle_output :: build_output where
  "bundle_output =
     \<lparr>success = True, logs = [],
      outputs = [\<lparr>path = ''/proj/dist/index.js'', size_bytes = 12636\<rparr>]\<rparr>"

definition bundle_ok :: "build_request \<Rightarrow> string + build_output" where
  "bundle_ok req = Inr bundle_output"

definition broken_output :: build_output where
  "broken_output =
     \<lparr>success = False,
      logs = [BuildMessage ''Could not resolve ./missing'', BuildMessage ''Unexpected end of file''],
      outputs = []\<rparr>"

definition bundle_broken :: "build_request \<Rightarrow> string + build_output" where
  "bundle_broken req = Inr broken_output"

definition tsc_ok :: "string list \<Rightarrow> int" where
  "tsc_ok argv = 0"

definition default_request :: "string \<Rightarrow> build_request" where
  "default_request e =
     \<lparr>entrypoints = [e], build_outdir = ''dist'', build_target = Bun, build_minify = True\<rparr>"

text \<open>
  A project with \<^verbatim>\<open>index.ts\<close> and nothing else, run without arguments; bundling and
  type generation succeed.
\<close>

definition plain_world :: world where
  "plain_world =
     \<lparr>parseArgs = Inr \<lparr>positionals = [], flags = no_flags\<rparr>,
      configPath = ''/proj/tsbun.config.ts'',
      fs_start = only_index,
      fs_built = only_index,
      import_module = import_fails,
      bunBuild = bundle_ok,
      relative_cwd = drop 6,
      duration = 42,
      log_index = exact_index,
      spawnSync = tsc_ok\<rparr>"

text \<open>An empty directory.\<close>

definition empty_project :: world where
  "empty_project = plain_world\<lparr>fs_start := no_files, fs_built := no_files\<rparr>"

text \<open>A directory that holds only \<^verbatim>\<open>tsbun.config.ts\<close>, whose default export is \<open>c\<close>.\<close>

definition config_project :: "TsBunConfig \<Rightarrow> world" where
  "config_project c =
     plain_world\<lparr>fs_start := only_config, fs_built := only_config, import_module := exports c\<rparr>"

text \<open>A project with \<^verbatim>\<open>index.ts\<close> and \<^verbatim>\<open>tsconfig.json\<close>.\<close>

definition tsconfig_project :: world where
  "tsconfig_project =
     plain_world\<lparr>fs_start := index_and_tsconfig, fs_built := index_and_tsconfig\<rparr>"

text \<open>
  A project with \<^verbatim>\<open>index.ts\<close> and a \<^verbatim>\<open>tsbun.config.ts\<close> that fails to load: with a
  syntax error, and with a top-level \<^verbatim>\<open>throw null\<close>.
\<close>

definition broken_config_project :: world where
  "broken_config_project =
     plain_world\<lparr>fs_start := index_and_config, import_module := import_fails\<rparr>"

definition null_config_project :: world where
  "null_config_project =
     plain_world\<lparr>fs_start := index_and_config, import_module := import_throws_null\<rparr>"

lemmas sample_defs =
  empty_project_def config_project_def tsconfig_project_def broken_config_project_def
  null_config_project_def
  sample_pkg_def no_files_def only_index_def only_src_index_def index_and_tsconfig_def
  only_config_def index_and_config_def empty_config_def sample_config_def exports_def no_flags_def import_fails_def import_throws_null_def bundle_output_def
  bundle_ok_def broken_output_def bundle_broken_def tsc_ok_def default_request_def
  plain_world_def

lemmas script_defs =
  main1_def main2_def build1_def build2_def start1_def start2_def types1_def types2_def
  loadConfig1_def loadConfig2_def parse_def resolveEntry_def first_positional_def falsy_def
  defaultEntries_def
  effective_outdir_def effective_minify_def effective_target_def target_string_def
  tscArgs_def uncaught_def module_config_def Let_def

section \<open>Events before the build are quiet\<close>

lemma quiet_not_mem [simp]:
  assumes "list_all quiet evs"
  shows "BunBuild r \<notin> set evs" and "SpawnSync a \<notin> set evs" and "ConsoleError m \<notin> set evs"
    and "ConsoleErrorMessage b \<notin> set evs"
  using assms by (auto simp: list_all_iff)

lemma probeDefaults_quiet: "list_all quiet (fst (probeDefaults ex es))"
  by (induction es) (auto split: prod.splits)

lemma resolveEntry_quiet: "list_all quiet (fst (resolveEntry ex ps config))"
  using probeDefaults_quiet [of ex defaultEntries]
  by (auto simp: resolveEntry_def Let_def split: prod.splits option.splits)

lemma resolveEntry_quiet' [simp]: "resolveEntry ex ps config = (probes, r) \<Longrightarrow> list_all quiet probes"
  using resolveEntry_quiet [of ex ps config] by simp

lemma start1_quiet [simp]: "list_all quiet (start1 pkg h cp tg od e)"
  by (simp add: start1_def split: option.splits)

lemma start2_quiet [simp]: "list_all quiet (start2 w od e)"
  by (simp add: start2_def)

lemma report1_quiet [simp]: "list_all quiet (report1 w result)"
  by (simp add: report1_def list_all_iff)

lemma loadConfig1_quiet: "list_all quiet (fst (loadConfig1 w))"
  by (simp add: loadConfig1_def Let_def split: sum.splits thrown.splits)

lemma loadConfig2_quiet: "list_all quiet (fst (loadConfig2 w))"
  by (simp add: loadConfig2_def Let_def split: sum.splits thrown.splits)

lemma types1_events [simp]:
  "types1 w od h e = (evs, c) \<Longrightarrow> BunBuild r \<notin> set evs"
  "types1 w od h e = (evs, c) \<Longrightarrow> ConsoleError entryNotFound \<notin> set evs"
  by (auto simp: types1_def Let_def entryNotFound_def split: if_splits)

lemma types2_events [simp]:
  "types2 w od e = (evs, c) \<Longrightarrow> BunBuild r \<notin> set evs"
  "types2 w od e = (evs, c) \<Longrightarrow> ConsoleError entryNotFound \<notin> set evs"
  by (auto simp: types2_def Let_def entryNotFound_def split: if_splits)

lemma build1_failure:
  assumes "BunBuild req \<in> set (trace (build1 pkg w pre ps config cp))"
    and "list_all quiet pre"
    and "bunBuild w req = Inr r" and "\<not> success r"
  shows "exit_code (build1 pkg w pre ps config cp) = 1 \<and>
         (\<exists>t. trace (build1 pkg w pre ps config cp) =
                t @ ConsoleError ''Build failed!'' # map ConsoleErrorMessage (logs r)) \<and>
         (\<forall>argv. SpawnSync argv \<notin> set (trace (build1 pkg w pre ps config cp)))"
  using assms
  by (auto simp: build1_def Let_def uncaught_def split: if_splits prod.splits option.splits sum.splits)

lemma build2_failure:
  assumes "BunBuild req \<in> set (trace (build2 pkg w pre ps config))"
    and "list_all quiet pre"
    and "bunBuild w req = Inr r" and "\<not> success r"
  shows "exit_code (build2 pkg w pre ps config) = 1 \<and>
         (\<exists>t. trace (build2 pkg w pre ps config) =
                t @ ConsoleError ''Build failed!'' # map ConsoleErrorMessage (logs r)) \<and>
         (\<forall>argv. SpawnSync argv \<notin> set (trace (build2 pkg w pre ps config)))"
  using assms
  by (auto simp: build2_def Let_def uncaught_def split: if_splits prod.splits option.splits sum.splits)

lemma main1_reaches_build:
  assumes "BunBuild req \<in> set (trace (main1 pkg w)) \<or> SpawnSync argv \<in> set (trace (main1 pkg w))"
  shows "\<exists>p evs config cp.
           parseArgs w = Inr p \<and> \<not> version_flag (flags p) \<and> \<not> help_flag (flags p) \<and>
           loadConfig1 w = (evs, Inr (config, cp)) \<and> list_all quiet evs \<and>
           main1 pkg w = build1 pkg w evs (positionals p) config cp"
  using assms loadConfig1_quiet [of w]
  by (auto simp: main1_def parse_def uncaught_def split: sum.splits if_splits prod.splits)

lemma main2_reaches_build:
  assumes "BunBuild req \<in> set (trace (main2 pkg w)) \<or> SpawnSync argv \<in> set (trace (main2 pkg w))"
  shows "\<exists>p evs config.
           parseArgs w = Inr p \<and> \<not> version_flag (flags p) \<and> \<not> help_flag (flags p) \<and>
           loadConfig2 w = (evs, Inr config) \<and> list_all quiet evs \<and>
           main2 pkg w =
             build2 pkg w
               (evs @ (case config of None \<Rightarrow> [] | Some _ \<Rightarrow> [ConsoleLog ''Using tsbun.config.ts...'']))
               (positionals p) config"
  using assms loadConfig2_quiet [of w]
  by (auto simp: main2_def parse_def uncaught_def split: sum.splits if_splits prod.splits)

lemma config_log_quiet [simp]:
  "list_all quiet (case config of None \<Rightarrow> [] | Some (c::TsBunConfig) \<Rightarrow> [ConsoleLog ''Using tsbun.config.ts...''])"
  by (simp split: option.splits)

section \<open>From the scripts to their build phase\<close>

lemma not_entryNotFound [simp]:
  "entryNotFound \<noteq> helpMessage pkg"
  "entryNotFound \<noteq> nl @ msg @ nl"
  "entryNotFound \<noteq> ''Build failed!''"
  by (simp_all add: helpMessage_def entryNotFound_def nl_def)

lemma main1_build:
  assumes "parseArgs w = Inr p" and "\<not> version_flag (flags p)" and "\<not> help_flag (flags p)"
    and "loadConfig1 w = (evs, Inr (config, cp))"
  shows "main1 pkg w = build1 pkg w evs (positionals p) config cp" and "list_all quiet evs"
  using assms loadConfig1_quiet [of w] by (simp_all add: main1_def parse_def)

lemma main2_build:
  assumes "parseArgs w = Inr p" and "\<not> version_flag (flags p)" and "\<not> help_flag (flags p)"
    and "loadConfig2 w = (evs, Inr config)"
  shows "main2 pkg w =
           build2 pkg w
             (evs @ (case config of None \<Rightarrow> [] | Some _ \<Rightarrow> [ConsoleLog ''Using tsbun.config.ts...'']))
             (positionals p) config"
    and "list_all quiet (evs @ (case config of None \<Rightarrow> [] | Some _ \<Rightarrow> [ConsoleLog ''Using tsbun.config.ts...'']))"
  using assms loadConfig2_quiet [of w] by (simp_all add: main2_def parse_def)

lemma build1_unresolved:
  assumes "resolveEntry (fs_start w) ps config = (probes, r)" and "falsy r"
  shows "build1 pkg w pre ps config cp =
           \<lparr>trace = pre @ probes @ [ConsoleError entryNotFound], exit_code = 1\<rparr>"
  using assms by (simp add: build1_def)

lemma build2_unresolved:
  assumes "resolveEntry (fs_start w) ps config = (probes, r)" and "falsy r"
  shows "build2 pkg w pre ps config =
           \<lparr>trace = pre @ probes @ [ConsoleError entryNotFound], exit_code = 1\<rparr>"
  using assms by (simp add: build2_def)

lemma build1_resolved:
  assumes "resolveEntry (fs_start w) ps config = (probes, r)" and "\<not> falsy r"
    and "list_all quiet pre"
  shows "\<exists>e. r = Some e \<and>
           BunBuild \<lparr>entrypoints = [e], build_outdir = effective_outdir config,
                     build_target = effective_target config,
                     build_minify = effective_minify config\<rparr>
             \<in> set (trace (build1 pkg w pre ps config cp))"
    and "ConsoleError entryNotFound \<notin> set (trace (build1 pkg w pre ps config cp))"
  using assms
  by (auto simp: build1_def Let_def uncaught_def falsy_def
           split: if_splits prod.splits option.splits sum.splits)

lemma build2_resolved:
  assumes "resolveEntry (fs_start w) ps config = (probes, r)" and "\<not> falsy r"
    and "list_all quiet pre"
  shows "\<exists>e. r = Some e \<and>
           BunBuild \<lparr>entrypoints = [e], build_outdir = effective_outdir config,
                     build_target = effective_target config,
                     build_minify = effective_minify config\<rparr>
             \<in> set (trace (build2 pkg w pre ps config))"
    and "ConsoleError entryNotFound \<notin> set (trace (build2 pkg w pre ps config))"
  using assms
  by (auto simp: build2_def Let_def uncaught_def falsy_def
           split: if_splits prod.splits option.splits sum.splits)

lemma build1_request:
  assumes "BunBuild req \<in> set (trace (build1 pkg w pre ps config cp))" and "list_all quiet pre"
  shows "\<exists>probes e. resolveEntry (fs_start w) ps config = (probes, Some e) \<and> e \<noteq> [] \<and>
           req = \<lparr>entrypoints = [e], build_outdir = effective_outdir config,
                  build_target = effective_target config,
                  build_minify = effective_minify config\<rparr>"
  using assms
  by (auto simp: build1_def Let_def uncaught_def falsy_def
           split: if_splits prod.splits option.splits sum.splits)

lemma build2_request:
  assumes "BunBuild req \<in> set (trace (build2 pkg w pre ps config))" and "list_all quiet pre"
  shows "\<exists>probes e. resolveEntry (fs_start w) ps config = (probes, Some e) \<and> e \<noteq> [] \<and>
           req = \<lparr>entrypoints = [e], build_outdir = effective_outdir config,
                  build_target = effective_target config,
                  build_minify = effective_minify config\<rparr>"
  using assms
  by (auto simp: build2_def Let_def uncaught_def falsy_def
           split: if_splits prod.splits option.splits sum.splits)

lemma main1_request:
  assumes "BunBuild req \<in> set (trace (main1 pkg w))"
  shows "\<exists>p evs config cp probes e.
           parseArgs w = Inr p \<and> loadConfig1 w = (evs, Inr (config, cp)) \<and>
           resolveEntry (fs_start w) (positionals p) config = (probes, Some e) \<and> e \<noteq> [] \<and>
           req = \<lparr>entrypoints = [e], build_outdir = effective_outdir config,
                  build_target = effective_target config,
                  build_minify = effective_minify config\<rparr>"
proof -
  from assms have "BunBuild req \<in> set (trace (main1 pkg w)) \<or> SpawnSync [] \<in> set (trace (main1 pkg w))"
    by simp
  from main1_reaches_build [OF this] obtain p :: parsed_args and evs config cp where
    p: "parseArgs w = Inr p" and l: "loadConfig1 w = (evs, Inr (config, cp))"
    and q: "list_all quiet evs"
    and m: "main1 pkg w = build1 pkg w evs (positionals p) config cp"
    by blast
  from assms m q build1_request [of req pkg w evs "positionals p" config cp] p l
  show ?thesis by auto
qed

lemma main2_request:
  assumes "BunBuild req \<in> set (trace (main2 pkg w))"
  shows "\<exists>p evs config probes e.
           parseArgs w = Inr p \<and> loadConfig2 w = (evs, Inr config) \<and>
           resolveEntry (fs_start w) (positionals p) config = (probes, Some e) \<and> e \<noteq> [] \<and>
           req = \<lparr>entrypoints = [e], build_outdir = effective_outdir config,
                  build_target = effective_target config,
                  build_minify = effective_minify config\<rparr>"
proof -
  from assms have "BunBuild req \<in> set (trace (main2 pkg w)) \<or> SpawnSync [] \<in> set (trace (main2 pkg w))"
    by simp
  from main2_reaches_build [OF this] obtain p :: parsed_args and evs config where
    p: "parseArgs w = Inr p" and l: "loadConfig2 w = (evs, Inr config)"
    and q: "list_all quiet evs"
    and m: "main2 pkg w =
          build2 pkg w
            (evs @ (case config of None \<Rightarrow> [] | Some _ \<Rightarrow> [ConsoleLog ''Using tsbun.config.ts...'']))
            (positionals p) config"
    by blast
  from assms m q p l
    build2_request [of req pkg w
      "evs @ (case config of None \<Rightarrow> [] | Some _ \<Rightarrow> [ConsoleLog ''Using tsbun.config.ts...''])"
      "positionals p" config]
  show ?thesis by auto
qed

lemma build1_spawn:
  assumes "SpawnSync argv \<in> set (trace (build1 pkg w pre ps config cp))" and "list_all quiet pre"
  shows "\<exists>probes e. resolveEntry (fs_start w) ps config = (probes, Some e) \<and>
           argv = [''bun'', ''x'', ''tsc''] @
                  tscArgs (effective_outdir config) (fs_start w ''tsconfig.json'') e"
  using assms
  by (auto simp: build1_def types1_def Let_def uncaught_def falsy_def
           split: if_splits prod.splits option.splits sum.splits)

lemma build2_spawn:
  assumes "SpawnSync argv \<in> set (trace (build2 pkg w pre ps config))" and "list_all quiet pre"
  shows "\<exists>probes e. resolveEntry (fs_start w) ps config = (probes, Some e) \<and>
           argv = [''bun'', ''x'', ''tsc''] @
                  tscArgs (effective_outdir config) (fs_built w ''tsconfig.json'') e"
  using assms
  by (auto simp: build2_def types2_def Let_def uncaught_def falsy_def
           split: if_splits prod.splits option.splits sum.splits)

section \<open>Size formatter: C2\<close>

lemma exact_index_floor:
  "0 < b \<Longrightarrow> exact_index b = nat \<lfloor>ln (real b) / ln 1024\<rfloor>"
  by (simp add: exact_index_def floorlog_def log_def)



text \<open>Whatever index the engine computes, this is the result for a positive byte count.\<close>

lemma formatSize_any_index:
  "0 < b \<Longrightarrow>
   formatSize idx b =
     toFixed2 b (1024 ^ idx b) @ '' '' @ (if idx b < 5 then sizes ! idx b else ''undefined'')"
  by (simp add: formatSize_def sizes_def Let_def)











section \<open>Config loader: C3\<close>

text \<open>
  What holds of the source: when \<^verbatim>\<open>tsbun.config.ts\<close> exists and the import throws a
  value whose \<^verbatim>\<open>message\<close> can be read, \<open>loadConfig\<close> warns on standard error and returns
  \<^verbatim>\<open>{config: null, path: null}\<close>, which is also what it returns, without the warning,
  when the file is absent; the scripts then run their build phase with no config.
\<close>

lemma loadConfig_failure_degrades:
  assumes "fs_start w (configPath w)"
    and "import_module w (''file://'' @ configPath w) = Inl (Thrown msg)"
  shows "loadConfig1 w =
           ([FileExists (configPath w), Import (''file://'' @ configPath w),
             ConsoleWarn (''Warning: Failed to load tsbun.config.ts: '' @ msg)],
            Inr (None, None))"
    and "loadConfig2 w =
           ([FileExists (configPath w), Import (''file://'' @ configPath w),
             ConsoleWarn (''Warning: Failed to load tsbun.config.ts: '' @ msg)],
            Inr None)"
  using assms by (simp_all add: loadConfig1_def loadConfig2_def Let_def)

lemma loadConfig_absent:
  assumes "\<not> fs_start w (configPath w)"
  shows "loadConfig1 w = ([FileExists (configPath w)], Inr (None, None))"
    and "loadConfig2 w = ([FileExists (configPath w)], Inr None)"
  using assms by (simp_all add: loadConfig1_def loadConfig2_def Let_def)

lemma config_failure_builds_without_config:
  assumes "parseArgs w = Inr p" and "\<not> version_flag (flags p)" and "\<not> help_flag (flags p)"
    and "fs_start w (configPath w)"
    and "import_module w (''file://'' @ configPath w) = Inl (Thrown msg)"
  shows "main1 pkg w =
           build1 pkg w
             [FileExists (configPath w), Import (''file://'' @ configPath w),
              ConsoleWarn (''Warning: Failed to load tsbun.config.ts: '' @ msg)]
             (positionals p) None None"
    and "main2 pkg w =
           build2 pkg w
             [FileExists (configPath w), Import (''file://'' @ configPath w),
              ConsoleWarn (''Warning: Failed to load tsbun.config.ts: '' @ msg)]
             (positionals p) None"
  using assms main1_build(1) [OF assms(1-3) loadConfig_failure_degrades(1) [OF assms(4,5)], of pkg]
    main2_build(1) [OF assms(1-3) loadConfig_failure_degrades(2) [OF assms(4,5)], of pkg]
  by simp_all

text \<open>
  C3 claims this for every failing import. The \<^verbatim>\<open>catch\<close> block reads \<^verbatim>\<open>err.message\<close> of
  whatever was thrown; when the module throws \<^verbatim>\<open>null\<close> (or \<^verbatim>\<open>undefined\<close>) that read
  raises a \<^verbatim>\<open>TypeError\<close> inside the \<^verbatim>\<open>catch\<close> block. No warning is printed, the error
  leaves \<open>loadConfig\<close>, and the top-level handler of the script prints the help text
  and the error and exits with status 1: the run is aborted, although the same project
  with a config that fails with an ordinary error builds and exits with status 0.
\<close>

theorem loadConfig_null_throw_aborts:
  "index_and_config (configPath (plain_world\<lparr>fs_start := index_and_config, import_module := import_throws_null\<rparr>)) \<and>
   import_module (plain_world\<lparr>fs_start := index_and_config, import_module := import_throws_null\<rparr>)
     ''file:///proj/tsbun.config.ts'' = Inl (ThrownNullish ''null is not an object'') \<and>
   loadConfig1 (plain_world\<lparr>fs_start := index_and_config, import_module := import_throws_null\<rparr>) =
     ([FileExists ''/proj/tsbun.config.ts'', Import ''file:///proj/tsbun.config.ts''],
      Inl ''null is not an object'') \<and>
   main1 sample_pkg (plain_world\<lparr>fs_start := index_and_config, import_module := import_throws_null\<rparr>) =
     \<lparr>trace = [FileExists ''/proj/tsbun.config.ts'', Import ''file:///proj/tsbun.config.ts'',
               ConsoleError (helpMessage sample_pkg),
               ConsoleError (nl @ ''null is not an object'' @ nl)],
      exit_code = 1\<rparr> \<and>
   main2 sample_pkg (plain_world\<lparr>fs_start := index_and_config, import_module := import_throws_null\<rparr>) =
     \<lparr>trace = [FileExists ''/proj/tsbun.config.ts'', Import ''file:///proj/tsbun.config.ts'',
               ConsoleError (helpMessage sample_pkg),
               ConsoleError (nl @ ''null is not an object'' @ nl)],
      exit_code = 1\<rparr> \<and>
   exit_code (main1 sample_pkg (plain_world\<lparr>fs_start := index_and_config, import_module := import_fails\<rparr>)) = 0 \<and>
   exit_code (main2 sample_pkg (plain_world\<lparr>fs_start := index_and_config, import_module := import_fails\<rparr>)) = 0"
  by (simp add: script_defs sample_defs)

section \<open>Version and help\<close>

text \<open>
  C7. When the parsed flags include \<^verbatim>\<open>--version\<close> or \<^verbatim>\<open>--help\<close>, both scripts print
  the version line (if \<^verbatim>\<open>--version\<close> is set) or else the help text, and exit with
  status 0. That one \<^verbatim>\<open>console.log\<close> is the whole run: the config file is not probed or
  imported, no entry candidate is probed, the bundler is not called.
\<close>

theorem version_help_short_circuit:
  "parseArgs w = Inr p \<and> (version_flag (flags p) \<or> help_flag (flags p)) \<longrightarrow>
     main1 pkg w =
       \<lparr>trace = [ConsoleLog (if version_flag (flags p) then name pkg @ ''@'' @ version pkg
                               else helpMessage pkg)],
        exit_code = 0\<rparr> \<and>
     main2 pkg w =
       \<lparr>trace = [ConsoleLog (if version_flag (flags p) then name pkg @ ''@'' @ version pkg
                               else helpMessage pkg)],
        exit_code = 0\<rparr>"
  by (simp add: main1_def main2_def parse_def)

theorem version_help_short_circuit_witness:
  "parseArgs (plain_world\<lparr>parseArgs := Inr \<lparr>positionals = [''a.ts''], flags = no_flags\<lparr>help_flag := True\<rparr>\<rparr>\<rparr>)
     = Inr \<lparr>positionals = [''a.ts''], flags = no_flags\<lparr>help_flag := True\<rparr>\<rparr> \<and>
   help_flag (no_flags\<lparr>help_flag := True\<rparr>) \<and>
   main1 sample_pkg
     (plain_world\<lparr>parseArgs := Inr \<lparr>positionals = [''a.ts''], flags = no_flags\<lparr>help_flag := True\<rparr>\<rparr>\<rparr>)
     = \<lparr>trace = [ConsoleLog (helpMessage sample_pkg)], exit_code = 0\<rparr> \<and>
   main2 sample_pkg
     (plain_world\<lparr>parseArgs := Inr \<lparr>positionals = [''a.ts''], flags = no_flags\<lparr>help_flag := True\<rparr>\<rparr>\<rparr>)
     = \<lparr>trace = [ConsoleLog (helpMessage sample_pkg)], exit_code = 0\<rparr>"
  using version_help_short_circuit
    [of "plain_world\<lparr>parseArgs := Inr \<lparr>positionals = [''a.ts''], flags = no_flags\<lparr>help_flag := True\<rparr>\<rparr>\<rparr>"
        "\<lparr>positionals = [''a.ts''], flags = no_flags\<lparr>help_flag := True\<rparr>\<rparr>" sample_pkg]
  by (simp add: no_flags_def)

lemma helpMessage_not_version: "helpMessage pkg \<noteq> name pkg @ ''@'' @ version pkg"
proof
  assume "helpMessage pkg = name pkg @ ''@'' @ version pkg"
  then have "length (helpMessage pkg) = length (name pkg @ ''@'' @ version pkg)" by simp
  then show False by (simp add: helpMessage_def nl_def)
qed

text \<open>
  C10. When both \<^verbatim>\<open>--version\<close> and \<^verbatim>\<open>--help\<close> are set, the version branch comes first:
  both scripts print only the line \<^verbatim>\<open><name>@<version>\<close> and exit with status 0; the help
  text is never printed.
\<close>

theorem version_before_help:
  "parseArgs w = Inr p \<and> version_flag (flags p) \<and> help_flag (flags p) \<longrightarrow>
     main1 pkg w = \<lparr>trace = [ConsoleLog (name pkg @ ''@'' @ version pkg)], exit_code = 0\<rparr> \<and>
     main2 pkg w = \<lparr>trace = [ConsoleLog (name pkg @ ''@'' @ version pkg)], exit_code = 0\<rparr> \<and>
     ConsoleLog (helpMessage pkg) \<notin> set (trace (main1 pkg w)) \<and>
     ConsoleLog (helpMessage pkg) \<notin> set (trace (main2 pkg w))"
  using helpMessage_not_version [of pkg] by (simp add: main1_def main2_def parse_def)

theorem version_before_help_witness:
  "parseArgs (plain_world\<lparr>parseArgs := Inr \<lparr>positionals = [],
       flags = \<lparr>help_flag = True, version_flag = True, watch_flag = False\<rparr>\<rparr>\<rparr>)
     = Inr \<lparr>positionals = [], flags = \<lparr>help_flag = True, version_flag = True, watch_flag = False\<rparr>\<rparr> \<and>
   version_flag \<lparr>help_flag = True, version_flag = True, watch_flag = False\<rparr> \<and>
   help_flag \<lparr>help_flag = True, version_flag = True, watch_flag = False\<rparr> \<and>
   main1 sample_pkg (plain_world\<lparr>parseArgs := Inr \<lparr>positionals = [],
       flags = \<lparr>help_flag = True, version_flag = True, watch_flag = False\<rparr>\<rparr>\<rparr>)
     = \<lparr>trace = [ConsoleLog ''tsbun@1.0.0''], exit_code = 0\<rparr> \<and>
   main2 sample_pkg (plain_world\<lparr>parseArgs := Inr \<lparr>positionals = [],
       flags = \<lparr>help_flag = True, version_flag = True, watch_flag = False\<rparr>\<rparr>\<rparr>)
     = \<lparr>trace = [ConsoleLog ''tsbun@1.0.0''], exit_code = 0\<rparr>"
  using version_before_help
    [of "plain_world\<lparr>parseArgs := Inr \<lparr>positionals = [],
           flags = \<lparr>help_flag = True, version_flag = True, watch_flag = False\<rparr>\<rparr>\<rparr>"
        "\<lparr>positionals = [], flags = \<lparr>help_flag = True, version_flag = True, watch_flag = False\<rparr>\<rparr>"
        sample_pkg]
  by (simp add: sample_pkg_def)

section \<open>Entry resolution: C1 and C9\<close>

text \<open>
  C1 (as amended). Entry resolution follows a strict priority order. A first positional
  argument that is not the empty string is the resolved entry, used verbatim, and no
  file is probed. Otherwise (no positional, or an empty one) the first of
  \<^verbatim>\<open>index.ts\<close>, \<^verbatim>\<open>src/index.ts\<close> that exists, probed in this order, is the resolved
  entry. Otherwise, if the config's \<^verbatim>\<open>entry\<close> field is a non-empty string it is the
  resolved entry, and if it is a non-empty list whose first element is not the empty
  string, that element is the resolved entry. (An empty string, wherever it comes from,
  is never a resolved entry: the test of line 112 refuses it.)
\<close>

theorem entry_resolution_priority:
  "(first_positional ps = Some p \<and> p \<noteq> [] \<longrightarrow> resolveEntry ex ps config = ([], Some p)) \<and>
   (falsy (first_positional ps) \<and> ex ''index.ts'' \<longrightarrow>
      resolveEntry ex ps config = ([FileExists ''index.ts''], Some ''index.ts'')) \<and>
   (falsy (first_positional ps) \<and> \<not> ex ''index.ts'' \<and> ex ''src/index.ts'' \<longrightarrow>
      resolveEntry ex ps config =
        ([FileExists ''index.ts'', FileExists ''src/index.ts''], Some ''src/index.ts'')) \<and>
   (falsy (first_positional ps) \<and> \<not> ex ''index.ts'' \<and> \<not> ex ''src/index.ts'' \<and>
    config = Some c \<and> entry c = Some (EntryString s) \<and> s \<noteq> [] \<longrightarrow>
      resolveEntry ex ps config =
        ([FileExists ''index.ts'', FileExists ''src/index.ts''], Some s)) \<and>
   (falsy (first_positional ps) \<and> \<not> ex ''index.ts'' \<and> \<not> ex ''src/index.ts'' \<and>
    config = Some c \<and> entry c = Some (EntryList (x # xs)) \<and> x \<noteq> [] \<longrightarrow>
      resolveEntry ex ps config =
        ([FileExists ''index.ts'', FileExists ''src/index.ts''], Some x))"
  by (auto simp: resolveEntry_def Let_def defaultEntries_def falsy_def split: option.splits)

theorem entry_resolution_priority_witness:
  "first_positional [''lib/main.ts'', ''x''] = Some ''lib/main.ts'' \<and> ''lib/main.ts'' \<noteq> [] \<and>
   resolveEntry only_index [''lib/main.ts'', ''x''] (Some sample_config) = ([], Some ''lib/main.ts'') \<and>
   falsy (first_positional []) \<and> only_index ''index.ts'' \<and>
   resolveEntry only_index [] (Some sample_config) = ([FileExists ''index.ts''], Some ''index.ts'') \<and>
   \<not> only_src_index ''index.ts'' \<and> only_src_index ''src/index.ts'' \<and>
   resolveEntry only_src_index [] (Some (sample_config\<lparr>entry := Some (EntryString ''other.ts'')\<rparr>)) =
     ([FileExists ''index.ts'', FileExists ''src/index.ts''], Some ''src/index.ts'') \<and>
   \<not> no_files ''index.ts'' \<and> \<not> no_files ''src/index.ts'' \<and>
   entry (sample_config\<lparr>entry := Some (EntryString ''other.ts'')\<rparr>) = Some (EntryString ''other.ts'') \<and>
   resolveEntry no_files [] (Some (sample_config\<lparr>entry := Some (EntryString ''other.ts'')\<rparr>)) =
     ([FileExists ''index.ts'', FileExists ''src/index.ts''], Some ''other.ts'') \<and>
   entry sample_config = Some (EntryList [''a.ts'', ''b.ts'']) \<and> ''a.ts'' \<noteq> [] \<and>
   resolveEntry no_files [] (Some sample_config) =
     ([FileExists ''index.ts'', FileExists ''src/index.ts''], Some ''a.ts'')"
proof -
  have f: "falsy (first_positional [])"
    by (simp add: falsy_def first_positional_def)
  have p: "first_positional [''lib/main.ts'', ''x''] = Some ''lib/main.ts''"
    by (simp add: first_positional_def)
  have e1: "entry (sample_config\<lparr>entry := Some (EntryString ''other.ts'')\<rparr>) = Some (EntryString ''other.ts'')"
    by simp
  have e2: "entry sample_config = Some (EntryList [''a.ts'', ''b.ts''])"
    by (simp add: sample_config_def)
  note t = entry_resolution_priority
  from p t [of "[''lib/main.ts'', ''x'']" "''lib/main.ts''" only_index "Some sample_config"]
  have r1: "resolveEntry only_index [''lib/main.ts'', ''x''] (Some sample_config) = ([], Some ''lib/main.ts'')"
    by simp
  from f t [of "[]" _ only_index "Some sample_config"]
  have r2: "resolveEntry only_index [] (Some sample_config) = ([FileExists ''index.ts''], Some ''index.ts'')"
    by (simp add: only_index_def)
  from f t [of "[]" _ only_src_index "Some (sample_config\<lparr>entry := Some (EntryString ''other.ts'')\<rparr>)"]
  have r3: "resolveEntry only_src_index [] (Some (sample_config\<lparr>entry := Some (EntryString ''other.ts'')\<rparr>)) =
     ([FileExists ''index.ts'', FileExists ''src/index.ts''], Some ''src/index.ts'')"
    by (simp add: only_src_index_def)
  from f e1 t [of "[]" _ no_files "Some (sample_config\<lparr>entry := Some (EntryString ''other.ts'')\<rparr>)"
      "sample_config\<lparr>entry := Some (EntryString ''other.ts'')\<rparr>" "''other.ts''"]
  have r4: "resolveEntry no_files [] (Some (sample_config\<lparr>entry := Some (EntryString ''other.ts'')\<rparr>)) =
     ([FileExists ''index.ts'', FileExists ''src/index.ts''], Some ''other.ts'')"
    by (simp add: no_files_def)
  from f e2 t [of "[]" _ no_files "Some sample_config" sample_config _ "''a.ts''" "[''b.ts'']"]
  have r5: "resolveEntry no_files [] (Some sample_config) =
     ([FileExists ''index.ts'', FileExists ''src/index.ts''], Some ''a.ts'')"
    by (simp add: no_files_def)
  from f p e1 e2 r1 r2 r3 r4 r5 show ?thesis
    by (simp add: only_index_def only_src_index_def no_files_def)
qed

text \<open>
  C1 as stated says that a first positional argument, when present, is the resolved
  entry. The test \<^verbatim>\<open>if (!entry)\<close> also holds for the empty string: run as
  \<^verbatim>\<open>tsbun ""\<close> in a project with \<^verbatim>\<open>index.ts\<close>, the script bundles \<^verbatim>\<open>index.ts\<close>.
\<close>

theorem empty_positional_counterexample:
  "first_positional [''''] = Some '''' \<and>
   resolveEntry only_index [''''] None = ([FileExists ''index.ts''], Some ''index.ts'') \<and>
   BunBuild (default_request ''index.ts'')
     \<in> set (trace (main1 sample_pkg
               (plain_world\<lparr>parseArgs := Inr \<lparr>positionals = [''''], flags = no_flags\<rparr>\<rparr>)))"
  by (simp add: script_defs sample_defs)

text \<open>
  C9. A config whose \<^verbatim>\<open>entry\<close> field is an empty list resolves exactly as the same
  config without the field. With no positional argument and neither default file on
  disk, the run then equals the build phase on the config without the field: it probes
  the two default files, prints the not-found message on standard error and exits with
  status 1; no element of the list is read.
\<close>

theorem empty_entry_list_is_no_entry:
  "resolveEntry ex ps (Some (c\<lparr>entry := Some (EntryList [])\<rparr>)) =
     resolveEntry ex ps (Some (c\<lparr>entry := None\<rparr>)) \<and>
   (parseArgs w = Inr p \<and> positionals p = [] \<and> \<not> version_flag (flags p) \<and>
    \<not> help_flag (flags p) \<and> \<not> fs_start w ''index.ts'' \<and> \<not> fs_start w ''src/index.ts'' \<and>
    loadConfig1 w = (evs, Inr (Some c, cp)) \<and> entry c = Some (EntryList []) \<longrightarrow>
      main1 pkg w =
        \<lparr>trace = evs @ [FileExists ''index.ts'', FileExists ''src/index.ts'',
                        ConsoleError entryNotFound],
         exit_code = 1\<rparr> \<and>
      main1 pkg w = build1 pkg w evs [] (Some (c\<lparr>entry := None\<rparr>)) cp) \<and>
   (parseArgs w = Inr p \<and> positionals p = [] \<and> \<not> version_flag (flags p) \<and>
    \<not> help_flag (flags p) \<and> \<not> fs_start w ''index.ts'' \<and> \<not> fs_start w ''src/index.ts'' \<and>
    loadConfig2 w = (evs2, Inr (Some c)) \<and> entry c = Some (EntryList []) \<longrightarrow>
      main2 pkg w =
        \<lparr>trace = evs2 @ [ConsoleLog ''Using tsbun.config.ts...'', FileExists ''index.ts'',
                         FileExists ''src/index.ts'', ConsoleError entryNotFound],
         exit_code = 1\<rparr> \<and>
      main2 pkg w =
        build2 pkg w (evs2 @ [ConsoleLog ''Using tsbun.config.ts...'']) []
          (Some (c\<lparr>entry := None\<rparr>)))"
  by (simp add: main1_def main2_def build1_def build2_def parse_def resolveEntry_def
        first_positional_def falsy_def defaultEntries_def Let_def)

theorem empty_entry_list_is_no_entry_witness:
  "parseArgs (config_project (sample_config\<lparr>entry := Some (EntryList [])\<rparr>)) =
     Inr \<lparr>positionals = [], flags = no_flags\<rparr> \<and>
   \<not> version_flag no_flags \<and> \<not> help_flag no_flags \<and>
   \<not> fs_start (config_project (sample_config\<lparr>entry := Some (EntryList [])\<rparr>)) ''index.ts'' \<and>
   \<not> fs_start (config_project (sample_config\<lparr>entry := Some (EntryList [])\<rparr>)) ''src/index.ts'' \<and>
   loadConfig1 (config_project (sample_config\<lparr>entry := Some (EntryList [])\<rparr>)) =
     ([FileExists ''/proj/tsbun.config.ts'', Import ''file:///proj/tsbun.config.ts''],
      Inr (Some (sample_config\<lparr>entry := Some (EntryList [])\<rparr>), Some ''/proj/tsbun.config.ts'')) \<and>
   loadConfig2 (config_project (sample_config\<lparr>entry := Some (EntryList [])\<rparr>)) =
     ([FileExists ''/proj/tsbun.config.ts'', Import ''file:///proj/tsbun.config.ts''],
      Inr (Some (sample_config\<lparr>entry := Some (EntryList [])\<rparr>))) \<and>
   entry (sample_config\<lparr>entry := Some (EntryList [])\<rparr>) = Some (EntryList []) \<and>
   main1 sample_pkg (config_project (sample_config\<lparr>entry := Some (EntryList [])\<rparr>)) =
     \<lparr>trace = [FileExists ''/proj/tsbun.config.ts'', Import ''file:///proj/tsbun.config.ts'',
               FileExists ''index.ts'', FileExists ''src/index.ts'', ConsoleError entryNotFound],
      exit_code = 1\<rparr> \<and>
   main2 sample_pkg (config_project (sample_config\<lparr>entry := Some (EntryList [])\<rparr>)) =
     \<lparr>trace = [FileExists ''/proj/tsbun.config.ts'', Import ''file:///proj/tsbun.config.ts'',
               ConsoleLog ''Using tsbun.config.ts...'',
               FileExists ''index.ts'', FileExists ''src/index.ts'', ConsoleError entryNotFound],
      exit_code = 1\<rparr>"
proof -
  define c where "c = sample_config\<lparr>entry := Some (EntryList [])\<rparr>"
  have h: "parseArgs (config_project c) = Inr \<lparr>positionals = [], flags = no_flags\<rparr>"
    "\<not> version_flag no_flags" "\<not> help_flag no_flags"
    "\<not> fs_start (config_project c) ''index.ts''"
    "\<not> fs_start (config_project c) ''src/index.ts''"
    "loadConfig1 (config_project c) =
       ([FileExists ''/proj/tsbun.config.ts'', Import ''file:///proj/tsbun.config.ts''],
        Inr (Some c, Some ''/proj/tsbun.config.ts''))"
    "loadConfig2 (config_project c) =
       ([FileExists ''/proj/tsbun.config.ts'', Import ''file:///proj/tsbun.config.ts''],
        Inr (Some c))"
    "entry c = Some (EntryList [])"
    by (simp_all add: c_def loadConfig1_def loadConfig2_def module_config_def Let_def
          config_project_def plain_world_def only_config_def exports_def no_flags_def)
  from h empty_entry_list_is_no_entry
    [of _ _ c "config_project c" "\<lparr>positionals = [], flags = no_flags\<rparr>"
        "[FileExists ''/proj/tsbun.config.ts'', Import ''file:///proj/tsbun.config.ts'']"
        "Some ''/proj/tsbun.config.ts''" sample_pkg
        "[FileExists ''/proj/tsbun.config.ts'', Import ''file:///proj/tsbun.config.ts'']"]
  have r: "main1 sample_pkg (config_project c) =
     \<lparr>trace = [FileExists ''/proj/tsbun.config.ts'', Import ''file:///proj/tsbun.config.ts'',
               FileExists ''index.ts'', FileExists ''src/index.ts'', ConsoleError entryNotFound],
      exit_code = 1\<rparr>"
    "main2 sample_pkg (config_project c) =
     \<lparr>trace = [FileExists ''/proj/tsbun.config.ts'', Import ''file:///proj/tsbun.config.ts'',
               ConsoleLog ''Using tsbun.config.ts...'',
               FileExists ''index.ts'', FileExists ''src/index.ts'', ConsoleError entryNotFound],
      exit_code = 1\<rparr>"
    by simp_all
  from h r show ?thesis unfolding c_def by simp
qed

section \<open>Effective options: C6\<close>

text \<open>
  C6 (as amended). For every loaded config the effective options are: \<^verbatim>\<open>outdir\<close> is the
  config's value when a non-empty one is given, otherwise \<^verbatim>\<open>dist\<close>; \<^verbatim>\<open>minify\<close> is the
  config's value whenever one is set, \<^verbatim>\<open>false\<close> included, otherwise \<^verbatim>\<open>true\<close>; \<^verbatim>\<open>target\<close>
  is the config's value when one is given, otherwise \<^verbatim>\<open>bun\<close>. These are the options of
  every request either script sends to the bundler.
\<close>

theorem effective_options:
  "(outdir c = Some d \<and> d \<noteq> [] \<longrightarrow> effective_outdir (Some c) = d) \<and>
   (outdir c = None \<or> outdir c = Some [] \<longrightarrow> effective_outdir (Some c) = ''dist'') \<and>
   (minify c = Some b \<longrightarrow> effective_minify (Some c) = b) \<and>
   (minify c = None \<longrightarrow> effective_minify (Some c) = True) \<and>
   (target c = Some t \<longrightarrow> effective_target (Some c) = t) \<and>
   (target c = None \<longrightarrow> effective_target (Some c) = Bun) \<and>
   (BunBuild req \<in> set (trace (main1 pkg w)) \<and> loadConfig1 w = (evs, Inr (Some c, cp)) \<longrightarrow>
      build_outdir req = effective_outdir (Some c) \<and>
      build_minify req = effective_minify (Some c) \<and>
      build_target req = effective_target (Some c)) \<and>
   (BunBuild req \<in> set (trace (main2 pkg w)) \<and> loadConfig2 w = (evs2, Inr (Some c)) \<longrightarrow>
      build_outdir req = effective_outdir (Some c) \<and>
      build_minify req = effective_minify (Some c) \<and>
      build_target req = effective_target (Some c))"
proof -
  have m1: "build_outdir req = effective_outdir (Some c) \<and>
      build_minify req = effective_minify (Some c) \<and>
      build_target req = effective_target (Some c)"
    if "BunBuild req \<in> set (trace (main1 pkg w))" and "loadConfig1 w = (evs, Inr (Some c, cp))"
    using main1_request [OF that(1)] that(2) by auto
  have m2: "build_outdir req = effective_outdir (Some c) \<and>
      build_minify req = effective_minify (Some c) \<and>
      build_target req = effective_target (Some c)"
    if "BunBuild req \<in> set (trace (main2 pkg w))" and "loadConfig2 w = (evs2, Inr (Some c))"
    using main2_request [OF that(1)] that(2) by auto
  show ?thesis
    using m1 m2
    by (auto simp: effective_outdir_def effective_minify_def effective_target_def)
qed

theorem effective_options_witness:
  "outdir sample_config = Some ''build'' \<and> ''build'' \<noteq> [] \<and>
   minify sample_config = Some False \<and> target sample_config = Some Node \<and>
   effective_outdir (Some sample_config) = ''build'' \<and>
   effective_minify (Some sample_config) = False \<and>
   effective_target (Some sample_config) = Node \<and>
   outdir empty_config = None \<and> minify empty_config = None \<and> target empty_config = None \<and>
   effective_outdir (Some empty_config) = ''dist'' \<and>
   effective_minify (Some empty_config) = True \<and>
   effective_target (Some empty_config) = Bun \<and>
   BunBuild \<lparr>entrypoints = [''a.ts''], build_outdir = ''build'', build_target = Node,
             build_minify = False\<rparr>
     \<in> set (trace (main1 sample_pkg (config_project sample_config))) \<and>
   BunBuild \<lparr>entrypoints = [''a.ts''], build_outdir = ''build'', build_target = Node,
             build_minify = False\<rparr>
     \<in> set (trace (main2 sample_pkg (config_project sample_config))) \<and>
   loadConfig1 (config_project sample_config) =
     ([FileExists ''/proj/tsbun.config.ts'', Import ''file:///proj/tsbun.config.ts''],
      Inr (Some sample_config, Some ''/proj/tsbun.config.ts'')) \<and>
   loadConfig2 (config_project sample_config) =
     ([FileExists ''/proj/tsbun.config.ts'', Import ''file:///proj/tsbun.config.ts''],
      Inr (Some sample_config))"
proof -
  have c1: "outdir sample_config = Some ''build''" "minify sample_config = Some False"
    "target sample_config = Some Node"
    by (simp_all add: sample_config_def)
  have c2: "outdir empty_config = None" "minify empty_config = None" "target empty_config = None"
    by (simp_all add: empty_config_def)
  have b1: "BunBuild \<lparr>entrypoints = [''a.ts''], build_outdir = ''build'', build_target = Node,
             build_minify = False\<rparr>
     \<in> set (trace (main1 sample_pkg (config_project sample_config)))"
    by (simp add: script_defs sample_defs)
  have b2: "BunBuild \<lparr>entrypoints = [''a.ts''], build_outdir = ''build'', build_target = Node,
             build_minify = False\<rparr>
     \<in> set (trace (main2 sample_pkg (config_project sample_config)))"
    by (simp add: script_defs sample_defs)
  have l1: "loadConfig1 (config_project sample_config) =
     ([FileExists ''/proj/tsbun.config.ts'', Import ''file:///proj/tsbun.config.ts''],
      Inr (Some sample_config, Some ''/proj/tsbun.config.ts''))"
    by (simp add: loadConfig1_def module_config_def Let_def config_project_def plain_world_def
          only_config_def exports_def)
  have l2: "loadConfig2 (config_project sample_config) =
     ([FileExists ''/proj/tsbun.config.ts'', Import ''file:///proj/tsbun.config.ts''],
      Inr (Some sample_config))"
    by (simp add: loadConfig2_def module_config_def Let_def config_project_def plain_world_def
          only_config_def exports_def)
  note t = effective_options [of sample_config "''build''" False Node
      "\<lparr>entrypoints = [''a.ts''], build_outdir = ''build'', build_target = Node,
        build_minify = False\<rparr>" sample_pkg "config_project sample_config"
      "[FileExists ''/proj/tsbun.config.ts'', Import ''file:///proj/tsbun.config.ts'']"
      "Some ''/proj/tsbun.config.ts''"
      "[FileExists ''/proj/tsbun.config.ts'', Import ''file:///proj/tsbun.config.ts'']"]
  from c1 t have r1: "effective_outdir (Some sample_config) = ''build''"
    "effective_minify (Some sample_config) = False"
    "effective_target (Some sample_config) = Node"
    by blast+
  from c2 effective_options [of empty_config]
  have r2: "effective_outdir (Some empty_config) = ''dist''"
    "effective_minify (Some empty_config) = True"
    "effective_target (Some empty_config) = Bun"
    by blast+
  from c1 c2 b1 b2 l1 l2 r1 r2 show ?thesis by simp
qed

text \<open>
  C6 as stated says that \<^verbatim>\<open>outdir\<close> equals the config's value whenever one is given.
  \<^verbatim>\<open>config?.outdir || "dist"\<close> replaces the empty string too: with
  \<^verbatim>\<open>outdir: ""\<close> the bundler is called with \<^verbatim>\<open>dist\<close>.
\<close>

theorem empty_outdir_counterexample:
  "outdir (sample_config\<lparr>outdir := Some ''''\<rparr>) = Some '''' \<and>
   effective_outdir (Some (sample_config\<lparr>outdir := Some ''''\<rparr>)) = ''dist'' \<and>
   BunBuild \<lparr>entrypoints = [''a.ts''], build_outdir = ''dist'', build_target = Node,
             build_minify = False\<rparr>
     \<in> set (trace (main1 sample_pkg (config_project (sample_config\<lparr>outdir := Some ''''\<rparr>))))"
  by (simp add: script_defs sample_defs)

section \<open>Resolved entry or failure: C8\<close>

text \<open>
  C8. In every invocation that reaches entry resolution (the arguments parse, neither
  \<^verbatim>\<open>--version\<close> nor \<^verbatim>\<open>--help\<close> is set, the config loader returns), exactly one of the
  following holds: the resolved entry is defined (not \<^verbatim>\<open>undefined\<close>, not empty), or the
  script prints the not-found message on standard error and exits with status 1. In
  the first case the bundler is called with that entry; in the second the run ends
  with the message, before any call of the bundler. With no positional argument, no
  default file on disk and no config file, both scripts exit with status 1 after the
  message. In every invocation whatsoever, a call of the bundler carries a non-empty
  entry and excludes the not-found message.
\<close>

theorem entry_or_failure:
  "(parseArgs w = Inr p \<and> \<not> version_flag (flags p) \<and> \<not> help_flag (flags p) \<and>
    loadConfig1 w = (evs, Inr (config, cp)) \<and>
    resolveEntry (fs_start w) (positionals p) config = (probes, r) \<longrightarrow>
      ((\<not> falsy r) \<noteq>
         (exit_code (main1 pkg w) = 1 \<and> ConsoleError entryNotFound \<in> set (trace (main1 pkg w)))) \<and>
      (falsy r \<longrightarrow>
         main1 pkg w = \<lparr>trace = evs @ probes @ [ConsoleError entryNotFound], exit_code = 1\<rparr>) \<and>
      (\<not> falsy r \<longrightarrow>
         (\<exists>e. r = Some e \<and>
            BunBuild \<lparr>entrypoints = [e], build_outdir = effective_outdir config,
                      build_target = effective_target config,
                      build_minify = effective_minify config\<rparr>
              \<in> set (trace (main1 pkg w))))) \<and>
   (parseArgs w = Inr p \<and> \<not> version_flag (flags p) \<and> \<not> help_flag (flags p) \<and>
    loadConfig2 w = (evs2, Inr config) \<and>
    resolveEntry (fs_start w) (positionals p) config = (probes, r) \<longrightarrow>
      ((\<not> falsy r) \<noteq>
         (exit_code (main2 pkg w) = 1 \<and> ConsoleError entryNotFound \<in> set (trace (main2 pkg w)))) \<and>
      (falsy r \<longrightarrow>
         main2 pkg w =
           \<lparr>trace = evs2 @
              (case config of None \<Rightarrow> [] | Some _ \<Rightarrow> [ConsoleLog ''Using tsbun.config.ts...'']) @
              probes @ [ConsoleError entryNotFound],
            exit_code = 1\<rparr>) \<and>
      (\<not> falsy r \<longrightarrow>
         (\<exists>e. r = Some e \<and>
            BunBuild \<lparr>entrypoints = [e], build_outdir = effective_outdir config,
                      build_target = effective_target config,
                      build_minify = effective_minify config\<rparr>
              \<in> set (trace (main2 pkg w))))) \<and>
   (parseArgs w = Inr p \<and> \<not> version_flag (flags p) \<and> \<not> help_flag (flags p) \<and>
    positionals p = [] \<and> \<not> fs_start w ''index.ts'' \<and> \<not> fs_start w ''src/index.ts'' \<and>
    \<not> fs_start w (configPath w) \<longrightarrow>
      main1 pkg w =
        \<lparr>trace = [FileExists (configPath w), FileExists ''index.ts'', FileExists ''src/index.ts'',
                  ConsoleError entryNotFound],
         exit_code = 1\<rparr> \<and>
      main2 pkg w =
        \<lparr>trace = [FileExists (configPath w), FileExists ''index.ts'', FileExists ''src/index.ts'',
                  ConsoleError entryNotFound],
         exit_code = 1\<rparr>) \<and>
   (BunBuild req \<in> set (trace (main1 pkg w)) \<longrightarrow>
      (\<exists>e. e \<noteq> [] \<and> entrypoints req = [e]) \<and>
      ConsoleError entryNotFound \<notin> set (trace (main1 pkg w))) \<and>
   (BunBuild req \<in> set (trace (main2 pkg w)) \<longrightarrow>
      (\<exists>e. e \<noteq> [] \<and> entrypoints req = [e]) \<and>
      ConsoleError entryNotFound \<notin> set (trace (main2 pkg w)))"
proof (intro conjI impI)
  assume a: "parseArgs w = Inr p \<and> \<not> version_flag (flags p) \<and> \<not> help_flag (flags p) \<and>
    loadConfig1 w = (evs, Inr (config, cp)) \<and>
    resolveEntry (fs_start w) (positionals p) config = (probes, r)"
  then have m: "main1 pkg w = build1 pkg w evs (positionals p) config cp" and q: "list_all quiet evs"
    using main1_build(1) [of w p evs config cp pkg] main1_build(2) [of w p evs config cp] by simp_all
  from a have re: "resolveEntry (fs_start w) (positionals p) config = (probes, r)" by simp
  show "(\<not> falsy r) \<noteq>
     (exit_code (main1 pkg w) = 1 \<and> ConsoleError entryNotFound \<in> set (trace (main1 pkg w)))"
    using m build1_unresolved [OF re, of pkg evs cp] build1_resolved(2) [OF re _ q, of pkg cp]
    by (cases "falsy r") simp_all
  show "main1 pkg w = \<lparr>trace = evs @ probes @ [ConsoleError entryNotFound], exit_code = 1\<rparr>"
    if "falsy r"
    using m build1_unresolved [OF re that] by simp
  show "\<exists>e. r = Some e \<and>
      BunBuild \<lparr>entrypoints = [e], build_outdir = effective_outdir config,
                build_target = effective_target config,
                build_minify = effective_minify config\<rparr>
        \<in> set (trace (main1 pkg w))"
    if "\<not> falsy r"
    using m build1_resolved(1) [OF re that q, of pkg cp] by simp
next
  assume a: "parseArgs w = Inr p \<and> \<not> version_flag (flags p) \<and> \<not> help_flag (flags p) \<and>
    loadConfig2 w = (evs2, Inr config) \<and>
    resolveEntry (fs_start w) (positionals p) config = (probes, r)"
  define pre where
    "pre = evs2 @ (case config of None \<Rightarrow> [] | Some _ \<Rightarrow> [ConsoleLog ''Using tsbun.config.ts...''])"
  from a have m: "main2 pkg w = build2 pkg w pre (positionals p) config" and q: "list_all quiet pre"
    using main2_build(1) [of w p evs2 config pkg] main2_build(2) [of w p evs2 config]
    by (simp_all add: pre_def)
  from a have re: "resolveEntry (fs_start w) (positionals p) config = (probes, r)" by simp
  show "(\<not> falsy r) \<noteq>
     (exit_code (main2 pkg w) = 1 \<and> ConsoleError entryNotFound \<in> set (trace (main2 pkg w)))"
    using m build2_unresolved [OF re, of pkg pre] build2_resolved(2) [OF re _ q, of pkg]
    by (cases "falsy r") simp_all
  show "main2 pkg w =
      \<lparr>trace = evs2 @
         (case config of None \<Rightarrow> [] | Some _ \<Rightarrow> [ConsoleLog ''Using tsbun.config.ts...'']) @
         probes @ [ConsoleError entryNotFound],
       exit_code = 1\<rparr>"
    if "falsy r"
    using m build2_unresolved [OF re that, of pkg pre] by (simp add: pre_def)
  show "\<exists>e. r = Some e \<and>
      BunBuild \<lparr>entrypoints = [e], build_outdir = effective_outdir config,
                build_target = effective_target config,
                build_minify = effective_minify config\<rparr>
        \<in> set (trace (main2 pkg w))"
    if "\<not> falsy r"
    using m build2_resolved(1) [OF re that q, of pkg] by simp
next
  assume a: "parseArgs w = Inr p \<and> \<not> version_flag (flags p) \<and> \<not> help_flag (flags p) \<and>
    positionals p = [] \<and> \<not> fs_start w ''index.ts'' \<and> \<not> fs_start w ''src/index.ts'' \<and>
    \<not> fs_start w (configPath w)"
  then show "main1 pkg w =
      \<lparr>trace = [FileExists (configPath w), FileExists ''index.ts'', FileExists ''src/index.ts'',
                ConsoleError entryNotFound],
       exit_code = 1\<rparr>"
    by (simp add: main1_def parse_def loadConfig1_def build1_def resolveEntry_def
          first_positional_def falsy_def defaultEntries_def Let_def)
  from a show "main2 pkg w =
      \<lparr>trace = [FileExists (configPath w), FileExists ''index.ts'', FileExists ''src/index.ts'',
                ConsoleError entryNotFound],
       exit_code = 1\<rparr>"
    by (simp add: main2_def parse_def loadConfig2_def build2_def resolveEntry_def
          first_positional_def falsy_def defaultEntries_def Let_def)
next
  assume a: "BunBuild req \<in> set (trace (main1 pkg w))"
  from main1_request [OF a] obtain q :: parsed_args and evs' config' cp' probes' e where
    pa: "parseArgs w = Inr q" and lc: "loadConfig1 w = (evs', Inr (config', cp'))"
    and re: "resolveEntry (fs_start w) (positionals q) config' = (probes', Some e)"
    and ne: "e \<noteq> []"
    and rq: "req = \<lparr>entrypoints = [e], build_outdir = effective_outdir config',
                     build_target = effective_target config',
                     build_minify = effective_minify config'\<rparr>"
    by blast
  from ne rq show "\<exists>e. e \<noteq> [] \<and> entrypoints req = [e]" by simp
  from a pa have nf: "\<not> version_flag (flags q)" "\<not> help_flag (flags q)"
    by (auto simp: main1_def parse_def split: if_splits)
  from ne have "\<not> falsy (Some e)" by (simp add: falsy_def)
  from build1_resolved(2) [OF re this main1_build(2) [OF pa nf lc], of pkg cp']
    main1_build(1) [OF pa nf lc, of pkg]
  show "ConsoleError entryNotFound \<notin> set (trace (main1 pkg w))" by simp
next
  assume a: "BunBuild req \<in> set (trace (main2 pkg w))"
  from main2_request [OF a] obtain q :: parsed_args and evs' config' probes' e where
    pa: "parseArgs w = Inr q" and lc: "loadConfig2 w = (evs', Inr config')"
    and re: "resolveEntry (fs_start w) (positionals q) config' = (probes', Some e)"
    and ne: "e \<noteq> []"
    and rq: "req = \<lparr>entrypoints = [e], build_outdir = effective_outdir config',
                     build_target = effective_target config',
                     build_minify = effective_minify config'\<rparr>"
    by blast
  from ne rq show "\<exists>e. e \<noteq> [] \<and> entrypoints req = [e]" by simp
  from a pa have nf: "\<not> version_flag (flags q)" "\<not> help_flag (flags q)"
    by (auto simp: main2_def parse_def split: if_splits)
  from ne have "\<not> falsy (Some e)" by (simp add: falsy_def)
  from build2_resolved(2) [OF re this main2_build(2) [OF pa nf lc], of pkg]
    main2_build(1) [OF pa nf lc, of pkg]
  show "ConsoleError entryNotFound \<notin> set (trace (main2 pkg w))" by simp
qed

theorem entry_or_failure_witness:
  "parseArgs empty_project = Inr \<lparr>positionals = [], flags = no_flags\<rparr> \<and>
   \<not> version_flag no_flags \<and> \<not> help_flag no_flags \<and>
   \<not> fs_start empty_project ''index.ts'' \<and> \<not> fs_start empty_project ''src/index.ts'' \<and>
   \<not> fs_start empty_project (configPath empty_project) \<and>
   loadConfig1 empty_project = ([FileExists ''/proj/tsbun.config.ts''], Inr (None, None)) \<and>
   loadConfig2 empty_project = ([FileExists ''/proj/tsbun.config.ts''], Inr None) \<and>
   resolveEntry (fs_start empty_project) [] None =
     ([FileExists ''index.ts'', FileExists ''src/index.ts''], None) \<and>
   falsy None \<and>
   main1 sample_pkg empty_project =
     \<lparr>trace = [FileExists ''/proj/tsbun.config.ts'', FileExists ''index.ts'',
               FileExists ''src/index.ts'', ConsoleError entryNotFound],
      exit_code = 1\<rparr> \<and>
   main2 sample_pkg empty_project =
     \<lparr>trace = [FileExists ''/proj/tsbun.config.ts'', FileExists ''index.ts'',
               FileExists ''src/index.ts'', ConsoleError entryNotFound],
      exit_code = 1\<rparr> \<and>
   parseArgs plain_world = Inr \<lparr>positionals = [], flags = no_flags\<rparr> \<and>
   loadConfig1 plain_world = ([FileExists ''/proj/tsbun.config.ts''], Inr (None, None)) \<and>
   loadConfig2 plain_world = ([FileExists ''/proj/tsbun.config.ts''], Inr None) \<and>
   resolveEntry (fs_start plain_world) [] None = ([FileExists ''index.ts''], Some ''index.ts'') \<and>
   \<not> falsy (Some ''index.ts'') \<and>
   BunBuild (default_request ''index.ts'') \<in> set (trace (main1 sample_pkg plain_world)) \<and>
   BunBuild (default_request ''index.ts'') \<in> set (trace (main2 sample_pkg plain_world)) \<and>
   \<not> (exit_code (main1 sample_pkg plain_world) = 1 \<and>
      ConsoleError entryNotFound \<in> set (trace (main1 sample_pkg plain_world))) \<and>
   \<not> (exit_code (main2 sample_pkg plain_world) = 1 \<and>
      ConsoleError entryNotFound \<in> set (trace (main2 sample_pkg plain_world)))"
proof -
  have e: "parseArgs empty_project = Inr \<lparr>positionals = [], flags = no_flags\<rparr>"
    "\<not> version_flag no_flags" "\<not> help_flag no_flags"
    "\<not> fs_start empty_project ''index.ts''" "\<not> fs_start empty_project ''src/index.ts''"
    "\<not> fs_start empty_project (configPath empty_project)"
    "loadConfig1 empty_project = ([FileExists ''/proj/tsbun.config.ts''], Inr (None, None))"
    "loadConfig2 empty_project = ([FileExists ''/proj/tsbun.config.ts''], Inr None)"
    "resolveEntry (fs_start empty_project) [] None =
       ([FileExists ''index.ts'', FileExists ''src/index.ts''], None)"
    "falsy None"
    by (simp_all add: script_defs sample_defs)
  have p: "parseArgs plain_world = Inr \<lparr>positionals = [], flags = no_flags\<rparr>"
    "loadConfig1 plain_world = ([FileExists ''/proj/tsbun.config.ts''], Inr (None, None))"
    "loadConfig2 plain_world = ([FileExists ''/proj/tsbun.config.ts''], Inr None)"
    "resolveEntry (fs_start plain_world) [] None = ([FileExists ''index.ts''], Some ''index.ts'')"
    "\<not> falsy (Some ''index.ts'')"
    by (simp_all add: script_defs sample_defs)
  have d: "effective_outdir None = ''dist''" "effective_target None = Bun"
    "effective_minify None = True"
    by (simp_all add: effective_outdir_def effective_target_def effective_minify_def)
  note t1 = entry_or_failure
    [of empty_project "\<lparr>positionals = [], flags = no_flags\<rparr>"
        "[FileExists ''/proj/tsbun.config.ts'']" None None
        "[FileExists ''index.ts'', FileExists ''src/index.ts'']" None sample_pkg
        "[FileExists ''/proj/tsbun.config.ts'']"]
  note t2 = entry_or_failure
    [of plain_world "\<lparr>positionals = [], flags = no_flags\<rparr>"
        "[FileExists ''/proj/tsbun.config.ts'']" None None
        "[FileExists ''index.ts'']" "Some ''index.ts''" sample_pkg
        "[FileExists ''/proj/tsbun.config.ts'']"]
  from e t1 have r1:
    "main1 sample_pkg empty_project =
       \<lparr>trace = [FileExists ''/proj/tsbun.config.ts'', FileExists ''index.ts'',
                 FileExists ''src/index.ts'', ConsoleError entryNotFound],
        exit_code = 1\<rparr>"
    "main2 sample_pkg empty_project =
       \<lparr>trace = [FileExists ''/proj/tsbun.config.ts'', FileExists ''index.ts'',
                 FileExists ''src/index.ts'', ConsoleError entryNotFound],
        exit_code = 1\<rparr>"
    by simp_all
  from p e(2,3) t2 d have r2:
    "BunBuild (default_request ''index.ts'') \<in> set (trace (main1 sample_pkg plain_world))"
    "BunBuild (default_request ''index.ts'') \<in> set (trace (main2 sample_pkg plain_world))"
    "\<not> (exit_code (main1 sample_pkg plain_world) = 1 \<and>
        ConsoleError entryNotFound \<in> set (trace (main1 sample_pkg plain_world)))"
    "\<not> (exit_code (main2 sample_pkg plain_world) = 1 \<and>
        ConsoleError entryNotFound \<in> set (trace (main2 sample_pkg plain_world)))"
    by (simp_all add: default_request_def)
  from e p r1 r2 show ?thesis by simp
qed

section \<open>Bundler failure\<close>

text \<open>
  C4. Whenever the bundler was called and its result has \<^verbatim>\<open>success = false\<close>, the
  script exits with status 1, the last things it prints are \<^verbatim>\<open>Build failed!\<close> and then
  every log message of the result, in order, and the type generator is never spawned.
\<close>

theorem bundler_failure_is_fatal:
  "(BunBuild req \<in> set (trace (main1 pkg w)) \<and> bunBuild w req = Inr r \<and> \<not> success r \<longrightarrow>
      exit_code (main1 pkg w) = 1 \<and>
      (\<exists>t. trace (main1 pkg w) =
             t @ ConsoleError ''Build failed!'' # map ConsoleErrorMessage (logs r)) \<and>
      (\<forall>argv. SpawnSync argv \<notin> set (trace (main1 pkg w)))) \<and>
   (BunBuild req \<in> set (trace (main2 pkg w)) \<and> bunBuild w req = Inr r \<and> \<not> success r \<longrightarrow>
      exit_code (main2 pkg w) = 1 \<and>
      (\<exists>t. trace (main2 pkg w) =
             t @ ConsoleError ''Build failed!'' # map ConsoleErrorMessage (logs r)) \<and>
      (\<forall>argv. SpawnSync argv \<notin> set (trace (main2 pkg w))))"
proof (intro conjI impI)
  assume a: "BunBuild req \<in> set (trace (main1 pkg w)) \<and> bunBuild w req = Inr r \<and> \<not> success r"
  then have "BunBuild req \<in> set (trace (main1 pkg w)) \<or> SpawnSync [] \<in> set (trace (main1 pkg w))"
    by simp
  from main1_reaches_build [OF this] obtain p :: parsed_args and evs config cp where
    m: "main1 pkg w = build1 pkg w evs (positionals p) config cp" and q: "list_all quiet evs"
    by blast
  from a m q build1_failure [of req pkg w evs "positionals p" config cp r]
  show "exit_code (main1 pkg w) = 1"
    and "\<exists>t. trace (main1 pkg w) =
           t @ ConsoleError ''Build failed!'' # map ConsoleErrorMessage (logs r)"
    and "\<forall>argv. SpawnSync argv \<notin> set (trace (main1 pkg w))"
    by simp_all
next
  assume a: "BunBuild req \<in> set (trace (main2 pkg w)) \<and> bunBuild w req = Inr r \<and> \<not> success r"
  then have "BunBuild req \<in> set (trace (main2 pkg w)) \<or> SpawnSync [] \<in> set (trace (main2 pkg w))"
    by simp
  from main2_reaches_build [OF this] obtain p :: parsed_args and evs config where
    m: "main2 pkg w =
          build2 pkg w
            (evs @ (case config of None \<Rightarrow> [] | Some _ \<Rightarrow> [ConsoleLog ''Using tsbun.config.ts...'']))
            (positionals p) config"
    and q: "list_all quiet evs"
    by blast
  from a m q
    build2_failure [of req pkg w
      "evs @ (case config of None \<Rightarrow> [] | Some _ \<Rightarrow> [ConsoleLog ''Using tsbun.config.ts...''])"
      "positionals p" config r]
  show "exit_code (main2 pkg w) = 1"
    and "\<exists>t. trace (main2 pkg w) =
           t @ ConsoleError ''Build failed!'' # map ConsoleErrorMessage (logs r)"
    and "\<forall>argv. SpawnSync argv \<notin> set (trace (main2 pkg w))"
    by simp_all
qed

theorem bundler_failure_is_fatal_witness:
  "BunBuild (default_request ''index.ts'')
     \<in> set (trace (main1 sample_pkg (plain_world\<lparr>bunBuild := bundle_broken\<rparr>))) \<and>
   BunBuild (default_request ''index.ts'')
     \<in> set (trace (main2 sample_pkg (plain_world\<lparr>bunBuild := bundle_broken\<rparr>))) \<and>
   bunBuild (plain_world\<lparr>bunBuild := bundle_broken\<rparr>) (default_request ''index.ts'')
     = Inr broken_output \<and>
   \<not> success broken_output \<and>
   exit_code (main1 sample_pkg (plain_world\<lparr>bunBuild := bundle_broken\<rparr>)) = 1 \<and>
   exit_code (main2 sample_pkg (plain_world\<lparr>bunBuild := bundle_broken\<rparr>)) = 1 \<and>
   (\<exists>t. trace (main1 sample_pkg (plain_world\<lparr>bunBuild := bundle_broken\<rparr>)) =
      t @ ConsoleError ''Build failed!'' # map ConsoleErrorMessage (logs broken_output)) \<and>
   (\<exists>t. trace (main2 sample_pkg (plain_world\<lparr>bunBuild := bundle_broken\<rparr>)) =
      t @ ConsoleError ''Build failed!'' # map ConsoleErrorMessage (logs broken_output)) \<and>
   (\<forall>argv. SpawnSync argv \<notin> set (trace (main1 sample_pkg (plain_world\<lparr>bunBuild := bundle_broken\<rparr>)))) \<and>
   (\<forall>argv. SpawnSync argv \<notin> set (trace (main2 sample_pkg (plain_world\<lparr>bunBuild := bundle_broken\<rparr>))))"
proof -
  have h1: "BunBuild (default_request ''index.ts'')
      \<in> set (trace (main1 sample_pkg (plain_world\<lparr>bunBuild := bundle_broken\<rparr>)))"
    by (simp add: script_defs sample_defs)
  have h2: "BunBuild (default_request ''index.ts'')
      \<in> set (trace (main2 sample_pkg (plain_world\<lparr>bunBuild := bundle_broken\<rparr>)))"
    by (simp add: script_defs sample_defs)
  have h3: "bunBuild (plain_world\<lparr>bunBuild := bundle_broken\<rparr>) (default_request ''index.ts'')
      = Inr broken_output"
    by (simp add: bundle_broken_def)
  have h4: "\<not> success broken_output"
    by (simp add: broken_output_def)
  from h1 h2 h3 h4
    bundler_failure_is_fatal
      [of "default_request ''index.ts''" sample_pkg "plain_world\<lparr>bunBuild := bundle_broken\<rparr>"
          broken_output]
  show ?thesis by blast
qed

section \<open>Arguments of the type generator: C5\<close>

text \<open>
  C5. Whenever a script spawns the type generator, the argument vector is
  \<^verbatim>\<open>bun x tsc --declaration --emitDeclarationOnly --noEmit false --outDir <outdir>\<close>
  with the effective \<^verbatim>\<open>outdir\<close>, followed by exactly \<^verbatim>\<open>--project tsconfig.json\<close> when
  \<^verbatim>\<open>tsconfig.json\<close> exists at the time the script probes it, and by exactly
  \<^verbatim>\<open>--esModuleInterop --skipLibCheck --moduleResolution bundler --target esnext <entry>\<close>
  with the resolved entry when it does not.
\<close>

theorem type_generation_arguments:
  "(SpawnSync argv \<in> set (trace (main1 pkg w)) \<longrightarrow>
      (\<exists>p evs config cp probes e.
         parseArgs w = Inr p \<and> loadConfig1 w = (evs, Inr (config, cp)) \<and>
         resolveEntry (fs_start w) (positionals p) config = (probes, Some e) \<and>
         argv =
           [''bun'', ''x'', ''tsc'', ''--declaration'', ''--emitDeclarationOnly'', ''--noEmit'',
            ''false'', ''--outDir'', effective_outdir config] @
           (if fs_start w ''tsconfig.json'' then [''--project'', ''tsconfig.json'']
            else [''--esModuleInterop'', ''--skipLibCheck'', ''--moduleResolution'', ''bundler'',
                  ''--target'', ''esnext'', e]))) \<and>
   (SpawnSync argv \<in> set (trace (main2 pkg w)) \<longrightarrow>
      (\<exists>p evs config probes e.
         parseArgs w = Inr p \<and> loadConfig2 w = (evs, Inr config) \<and>
         resolveEntry (fs_start w) (positionals p) config = (probes, Some e) \<and>
         argv =
           [''bun'', ''x'', ''tsc'', ''--declaration'', ''--emitDeclarationOnly'', ''--noEmit'',
            ''false'', ''--outDir'', effective_outdir config] @
           (if fs_built w ''tsconfig.json'' then [''--project'', ''tsconfig.json'']
            else [''--esModuleInterop'', ''--skipLibCheck'', ''--moduleResolution'', ''bundler'',
                  ''--target'', ''esnext'', e])))"
proof (intro conjI impI)
  assume a: "SpawnSync argv \<in> set (trace (main1 pkg w))"
  then have "BunBuild (default_request []) \<in> set (trace (main1 pkg w)) \<or> SpawnSync argv \<in> set (trace (main1 pkg w))"
    by simp
  from main1_reaches_build [OF this] obtain p :: parsed_args and evs config cp where
    p: "parseArgs w = Inr p" and l: "loadConfig1 w = (evs, Inr (config, cp))"
    and q: "list_all quiet evs"
    and m: "main1 pkg w = build1 pkg w evs (positionals p) config cp"
    by blast
  from a m have "SpawnSync argv \<in> set (trace (build1 pkg w evs (positionals p) config cp))"
    by simp
  from build1_spawn [OF this q] obtain probes e where
    "resolveEntry (fs_start w) (positionals p) config = (probes, Some e)"
    and "argv = [''bun'', ''x'', ''tsc''] @
                tscArgs (effective_outdir config) (fs_start w ''tsconfig.json'') e"
    by blast
  with p l show "\<exists>p evs config cp probes e.
         parseArgs w = Inr p \<and> loadConfig1 w = (evs, Inr (config, cp)) \<and>
         resolveEntry (fs_start w) (positionals p) config = (probes, Some e) \<and>
         argv =
           [''bun'', ''x'', ''tsc'', ''--declaration'', ''--emitDeclarationOnly'', ''--noEmit'',
            ''false'', ''--outDir'', effective_outdir config] @
           (if fs_start w ''tsconfig.json'' then [''--project'', ''tsconfig.json'']
            else [''--esModuleInterop'', ''--skipLibCheck'', ''--moduleResolution'', ''bundler'',
                  ''--target'', ''esnext'', e])"
    by (auto simp: tscArgs_def)
next
  assume a: "SpawnSync argv \<in> set (trace (main2 pkg w))"
  then have "BunBuild (default_request []) \<in> set (trace (main2 pkg w)) \<or> SpawnSync argv \<in> set (trace (main2 pkg w))"
    by simp
  from main2_reaches_build [OF this] obtain p :: parsed_args and evs config where
    p: "parseArgs w = Inr p" and l: "loadConfig2 w = (evs, Inr config)"
    and q: "list_all quiet evs"
    and m: "main2 pkg w =
          build2 pkg w
            (evs @ (case config of None \<Rightarrow> [] | Some _ \<Rightarrow> [ConsoleLog ''Using tsbun.config.ts...'']))
            (positionals p) config"
    by blast
  from q have q': "list_all quiet
      (evs @ (case config of None \<Rightarrow> [] | Some _ \<Rightarrow> [ConsoleLog ''Using tsbun.config.ts...'']))"
    by simp
  from a m have "SpawnSync argv \<in> set (trace (build2 pkg w
      (evs @ (case config of None \<Rightarrow> [] | Some _ \<Rightarrow> [ConsoleLog ''Using tsbun.config.ts...'']))
      (positionals p) config))"
    by simp
  from build2_spawn [OF this q'] obtain probes e where
    "resolveEntry (fs_start w) (positionals p) config = (probes, Some e)"
    and "argv = [''bun'', ''x'', ''tsc''] @
                tscArgs (effective_outdir config) (fs_built w ''tsconfig.json'') e"
    by blast
  with p l show "\<exists>p evs config probes e.
         parseArgs w = Inr p \<and> loadConfig2 w = (evs, Inr config) \<and>
         resolveEntry (fs_start w) (positionals p) config = (probes, Some e) \<and>
         argv =
           [''bun'', ''x'', ''tsc'', ''--declaration'', ''--emitDeclarationOnly'', ''--noEmit'',
            ''false'', ''--outDir'', effective_outdir config] @
           (if fs_built w ''tsconfig.json'' then [''--project'', ''tsconfig.json'']
            else [''--esModuleInterop'', ''--skipLibCheck'', ''--moduleResolution'', ''bundler'',
                  ''--target'', ''esnext'', e])"
    by (auto simp: tscArgs_def)
qed

theorem type_generation_arguments_witness:
  "SpawnSync [''bun'', ''x'', ''tsc'', ''--declaration'', ''--emitDeclarationOnly'', ''--noEmit'',
              ''false'', ''--outDir'', ''dist'', ''--project'', ''tsconfig.json'']
     \<in> set (trace (main1 sample_pkg tsconfig_project)) \<and>
   SpawnSync [''bun'', ''x'', ''tsc'', ''--declaration'', ''--emitDeclarationOnly'', ''--noEmit'',
              ''false'', ''--outDir'', ''dist'', ''--esModuleInterop'', ''--skipLibCheck'',
              ''--moduleResolution'', ''bundler'', ''--target'', ''esnext'', ''index.ts'']
     \<in> set (trace (main2 sample_pkg plain_world)) \<and>
   (\<exists>p evs config cp probes e.
      parseArgs tsconfig_project = Inr p \<and> loadConfig1 tsconfig_project = (evs, Inr (config, cp)) \<and>
      resolveEntry (fs_start tsconfig_project) (positionals p) config = (probes, Some e) \<and>
      [''bun'', ''x'', ''tsc'', ''--declaration'', ''--emitDeclarationOnly'', ''--noEmit'',
       ''false'', ''--outDir'', ''dist'', ''--project'', ''tsconfig.json''] =
        [''bun'', ''x'', ''tsc'', ''--declaration'', ''--emitDeclarationOnly'', ''--noEmit'',
         ''false'', ''--outDir'', effective_outdir config] @
        (if fs_start tsconfig_project ''tsconfig.json'' then [''--project'', ''tsconfig.json'']
         else [''--esModuleInterop'', ''--skipLibCheck'', ''--moduleResolution'', ''bundler'',
               ''--target'', ''esnext'', e])) \<and>
   (\<exists>p evs config probes e.
      parseArgs plain_world = Inr p \<and> loadConfig2 plain_world = (evs, Inr config) \<and>
      resolveEntry (fs_start plain_world) (positionals p) config = (probes, Some e) \<and>
      [''bun'', ''x'', ''tsc'', ''--declaration'', ''--emitDeclarationOnly'', ''--noEmit'',
       ''false'', ''--outDir'', ''dist'', ''--esModuleInterop'', ''--skipLibCheck'',
       ''--moduleResolution'', ''bundler'', ''--target'', ''esnext'', ''index.ts''] =
        [''bun'', ''x'', ''tsc'', ''--declaration'', ''--emitDeclarationOnly'', ''--noEmit'',
         ''false'', ''--outDir'', effective_outdir config] @
        (if fs_built plain_world ''tsconfig.json'' then [''--project'', ''tsconfig.json'']
         else [''--esModuleInterop'', ''--skipLibCheck'', ''--moduleResolution'', ''bundler'',
               ''--target'', ''esnext'', e]))"
proof -
  have h1: "SpawnSync [''bun'', ''x'', ''tsc'', ''--declaration'', ''--emitDeclarationOnly'', ''--noEmit'',
              ''false'', ''--outDir'', ''dist'', ''--project'', ''tsconfig.json'']
     \<in> set (trace (main1 sample_pkg tsconfig_project))"
    by (simp add: script_defs sample_defs)
  have h2: "SpawnSync [''bun'', ''x'', ''tsc'', ''--declaration'', ''--emitDeclarationOnly'', ''--noEmit'',
              ''false'', ''--outDir'', ''dist'', ''--esModuleInterop'', ''--skipLibCheck'',
              ''--moduleResolution'', ''bundler'', ''--target'', ''esnext'', ''index.ts'']
     \<in> set (trace (main2 sample_pkg plain_world))"
    by (simp add: script_defs sample_defs)
  from h1 h2
    type_generation_arguments [of _ sample_pkg tsconfig_project]
    type_generation_arguments [of _ sample_pkg plain_world]
  show ?thesis by blast
qed

end
